theory Spec2Isabelle
  imports Complex_Main "HOL-Library.Monad_Syntax"
begin

section \<open>The integrators of OrdDiffEq.cpp\<close>

text \<open>
  The file \<^verbatim>\<open>src/cpp/src/OrdDiffEq.cpp\<close> holds two overloads of \<^verbatim>\<open>ODE\<close>: one that
  runs until the relative changes fall under a threshold (lines 141-535) and one that runs a
  given number of steps (lines 537-891). Both are embedded below, statement by statement.

  Conventions of the embedding.
  \<^item> A C++ \<^verbatim>\<open>double\<close> is a \<^typ>\<open>real\<close>: rounding and overflow are outside the model.
    A quotient with a zero divisor is an infinity or NaN in the program and \<open>0\<close> in HOL.
    The quotients that steer the threshold overload are therefore modelled with their IEEE
    outcome written out: \<^verbatim>\<open>1.0 / ibs[k]\<close> in the step and the budget (\<open>min_inv\<close>,
    \<open>max_inv\<close>), the budget quotient under the cast (\<open>quotient_to_int\<close>) and the relative
    change of the loop condition (\<open>rel_change\<close>). The quotients inside the two update
    blocks (by \<^verbatim>\<open>1.0 - ratio\<close> and by a damping time) and the square root are HOL's; the
    general statements that depend on them assume nonzero divisors (\<open>regular_pass\<close>,
    \<open>regular\<close>, nonzero damping times).
  \<^item> A \<^verbatim>\<open>vector<double>\<close> is a \<^typ>\<open>real list\<close>; \<^verbatim>\<open>push_back\<close> appends at the end.
    \<^verbatim>\<open>v[k]\<close> outside the vector is undefined behaviour in C++: the model reads through
    \<open>vget\<close>, which yields \<open>None\<close> there, and \<open>None\<close> propagates to the result of the run.
  \<^item> The functions of the other translation units (radiation integrals, synchrotron tune,
    the thirteen growth-rate models, \<^verbatim>\<open>sigsfromsige\<close>, \<^verbatim>\<open>SigeFromRFAndSigs\<close>) are
    parameters, collected in the record \<open>collaborators\<close>.
  \<^item> Everything under \<^verbatim>\<open>if (debug_output)\<close> only prints and is left out.
\<close>

subsection \<open>Data\<close>

text \<open>
  What the statements before the loop obtain from the lattice (\<^verbatim>\<open>twiss\<close>,
  \<^verbatim>\<open>twissdata\<close>, \<^verbatim>\<open>nrf\<close>, \<^verbatim>\<open>harmon\<close>, \<^verbatim>\<open>voltages\<close>) through external functions. Both
  overloads compute these values by the same calls on the same arguments (lines 176-207 and
  561-594). \<open>SigeFromRFAndSigs\<close> is given as a function of its first argument, the others
  (\<^verbatim>\<open>U0, charge, nrf, harmon, voltages, gamma, gammatr, pc, len, phis, false\<close>) being fixed
  by the lattice. \<open>models m pnumber ex ey sigs sige\<close> is the array \<^verbatim>\<open>ibs[0..2]\<close> returned by
  the growth-rate function that \<^verbatim>\<open>case m\<close> of the switch calls.
\<close>

record collaborators =
  gamma :: real
  gammatr :: real
  omegas :: real
  equi :: "nat \<Rightarrow> real"
  SigeFromRFAndSigs :: "real \<Rightarrow> real"
  sigsfromsige :: "real \<Rightarrow> real \<Rightarrow> real \<Rightarrow> real \<Rightarrow> real"
  models :: "int \<Rightarrow> real \<Rightarrow> real \<Rightarrow> real \<Rightarrow> real \<Rightarrow> real \<Rightarrow> real \<times> real \<times> real"

text \<open>The five vectors of the parameter list, as the caller holds them.\<close>

record series =
  t_vec :: "real list"
  ex_vec :: "real list"
  ey_vec :: "real list"
  sigs_vec :: "real list"
  sige_vec :: "real list"

text \<open>
  The variables of a running loop: the vectors (here \<open>sige_vec\<close> is the local copy made by
  the by-value parameter \<^verbatim>\<open>vector<double> sige\<close>), the local \<^verbatim>\<open>sige2\<close>, the counter
  \<^verbatim>\<open>i\<close>, the step \<^verbatim>\<open>ddt\<close> and the array \<^verbatim>\<open>ibs\<close> of the latest growth-rate call
  (\<open>None\<close> while the pointer \<^verbatim>\<open>ibs\<close> is uninitialised).
\<close>

record locals = series +
  sige2_vec :: "real list"
  i_var :: nat
  ddt_var :: real
  ibs_var :: "(real \<times> real \<times> real) option"

text \<open>The sanitised settings that the loop body reads.\<close>

record settings =
  model :: int
  pnumber :: real
  coupling :: real
  ey0_coupled :: real
  method_name :: string

subsection \<open>Reading a vector\<close>

definition vget :: "real list \<Rightarrow> nat \<Rightarrow> real option" where
  "vget v k = (if k < length v then Some (v ! k) else None)"

subsection \<open>Growth rates\<close>

text \<open>
  The switch over \<^verbatim>\<open>model\<close> (lines 263-315, 383-474, 655-707, 737-828) has the cases 1 to
  13 and no default. With another value \<^verbatim>\<open>ibs\<close>, \<^verbatim>\<open>aes\<close>, \<^verbatim>\<open>aex\<close> and \<^verbatim>\<open>aey\<close> stay
  uninitialised and are read afterwards: undefined behaviour, \<open>None\<close> here.
\<close>

definition ibs_switch ::
  "collaborators \<Rightarrow> int \<Rightarrow> real \<Rightarrow> real \<Rightarrow> real \<Rightarrow> real \<Rightarrow> real \<Rightarrow> (real \<times> real \<times> real) option" where
  "ibs_switch L m pn x y s e =
     (if 1 \<le> m \<and> m \<le> 13 then Some (models L m pn x y s e) else None)"

subsection \<open>Sanitising the settings\<close>

text \<open>Lines 151-159 and 548-556.\<close>

definition sanitize_method :: "string \<Rightarrow> string" where
  "sanitize_method m = (if \<not> (m = ''rlx'' \<or> m = ''der'') then ''der'' else m)"

text \<open>Lines 161-163.\<close>

definition sanitize_threshold :: "real \<Rightarrow> real" where
  "sanitize_threshold th = (if th > 1 \<or> th < 1 / 10 ^ 6 then 1 / 10 ^ 4 else th)"

text \<open>Lines 165-167 and 544-546.\<close>

definition sanitize_coupling :: "int \<Rightarrow> int" where
  "sanitize_coupling cp = (if cp > 100 \<or> cp < 0 then 0 else cp)"

text \<open>
  The settings both overloads derive from their arguments: the coupling fraction (lines 170
  and 558) and the coupled vertical target (lines 216 and 602).
\<close>

definition sanitized :: "collaborators \<Rightarrow> int \<Rightarrow> real \<Rightarrow> int \<Rightarrow> string \<Rightarrow> settings" where
  "sanitized L m pn couplingpercentage meth =
     (let cpl = real_of_int (sanitize_coupling couplingpercentage) / 100
      in \<lparr>model = m, pnumber = pn, coupling = cpl,
          ey0_coupled = max (cpl * equi L 3) (equi L 4),
          method_name = sanitize_method meth\<rparr>)"

subsection \<open>The two stepping schemes\<close>

text \<open>
  The relaxation block (lines 481-498 and 843-856, the same text in both overloads) and the
  derivative block (lines 500-512 and 858-870). They run after \<^verbatim>\<open>i++\<close>, so \<open>i_var s\<close> is
  at least 1 here. The argument \<open>rates\<close> is \<^verbatim>\<open>(aes, aex, aey)\<close>.
\<close>

definition rlx_push :: "collaborators \<Rightarrow> settings \<Rightarrow> real \<times> real \<times> real \<Rightarrow> locals \<Rightarrow> locals option" where
  "rlx_push L c rates s =
     (case rates of (aes, aex, aey) \<Rightarrow>
      let i = i_var s;
          dt = ddt_var s;
          ratio_x = equi L 0 * aex;
          ratio_y = equi L 1 * aey;
          ratio_s = equi L 2 * aes;
          xfactor = 1 / (1 - ratio_x);
          yfactor = 1 / (1 - ratio_y);
          sfactor = 1 / (1 - ratio_s)
      in do {
        tp \<leftarrow> vget (t_vec s) (i - 1);
        xp \<leftarrow> vget (ex_vec s) (i - 1);
        yp \<leftarrow> vget (ey_vec s) (i - 1);
        ep \<leftarrow> vget (sige_vec s) (i - 1);
        let sige' = sige_vec s @ [ep + dt * (sfactor * sqrt (equi L 5) - ep)];
        ei \<leftarrow> vget sige' i;
        Some (s\<lparr>t_vec := t_vec s @ [tp + dt],
                ex_vec := ex_vec s @ [xp + dt * (xfactor * equi L 3 - xp)],
                ey_vec := ey_vec s @
                  [yp + dt * (((1 - coupling c) * yfactor + coupling c * xfactor) * ey0_coupled c - yp)],
                sige_vec := sige',
                sige2_vec := sige2_vec s @ [ei * ei],
                sigs_vec := sigs_vec s @ [sigsfromsige L ei (gamma L) (gammatr L) (omegas L)]\<rparr>)
      })"

text \<open>
  The three derivatives of lines 500-505 (and 858-863), as functions of the value read at
  \<^verbatim>\<open>i - 1\<close> and of the growth rate.
\<close>

definition dxdt :: "collaborators \<Rightarrow> real \<Rightarrow> real \<Rightarrow> real" where
  "dxdt L xp aex = - (xp - equi L 3) * 2 / equi L 0 + xp * 2 * aex"

definition dydt :: "collaborators \<Rightarrow> settings \<Rightarrow> real \<Rightarrow> real \<Rightarrow> real" where
  "dydt L c yp aey = - (yp - ey0_coupled c) * 2 / equi L 1 + yp * 2 * aey"

definition dedt :: "collaborators \<Rightarrow> real \<Rightarrow> real \<Rightarrow> real" where
  "dedt L ep aes = - (ep - sqrt (equi L 5)) / equi L 2 + ep * aes"

definition der_push :: "collaborators \<Rightarrow> settings \<Rightarrow> real \<times> real \<times> real \<Rightarrow> locals \<Rightarrow> locals option" where
  "der_push L c rates s =
     (case rates of (aes, aex, aey) \<Rightarrow>
      let i = i_var s;
          dt = ddt_var s
      in do {
        xp \<leftarrow> vget (ex_vec s) (i - 1);
        yp \<leftarrow> vget (ey_vec s) (i - 1);
        ep \<leftarrow> vget (sige_vec s) (i - 1);
        let dx = dxdt L xp aex;
        let dy = dydt L c yp aey;
        let de = dedt L ep aes;
        tp \<leftarrow> vget (t_vec s) (i - 1);
        let sige' = sige_vec s @ [ep + dt * de];
        ei \<leftarrow> vget sige' i;
        Some (s\<lparr>t_vec := t_vec s @ [tp + dt],
                ex_vec := ex_vec s @ [xp + dt * dx],
                ey_vec := ey_vec s @ [yp + dt * dy],
                sige_vec := sige',
                sige2_vec := sige2_vec s @ [ei * ei],
                sigs_vec := sigs_vec s @ [sigsfromsige L ei (gamma L) (gammatr L) (omegas L)]\<rparr>)
      })"

text \<open>
  The growth-rate call at the head of each iteration (lines 383-474 and 737-828): read the
  four vectors at \<^verbatim>\<open>i\<close>, dispatch on the model.
\<close>

definition ibs_update :: "collaborators \<Rightarrow> settings \<Rightarrow> locals \<Rightarrow> (real \<times> real \<times> real) option" where
  "ibs_update L c s = do {
     x \<leftarrow> vget (ex_vec s) (i_var s);
     y \<leftarrow> vget (ey_vec s) (i_var s);
     sg \<leftarrow> vget (sigs_vec s) (i_var s);
     e \<leftarrow> vget (sige_vec s) (i_var s);
     ibs_switch L (model c) (pnumber c) x y sg e
   }"

subsection \<open>The fixed-step overload\<close>

text \<open>
  One pass through the body of the \<^verbatim>\<open>do\<close> loop, lines 736-871. The guard of lines
  839-841 halves \<^verbatim>\<open>ddt\<close>, which is declared outside the loop and keeps the halved value.
\<close>

definition fixed_body :: "collaborators \<Rightarrow> settings \<Rightarrow> locals \<Rightarrow> locals option" where
  "fixed_body L c s = do {
     rates \<leftarrow> ibs_update L c s;
     let s1 = s\<lparr>ibs_var := Some rates, i_var := Suc (i_var s)\<rparr>;
     if method_name c = ''rlx'' then
       (case rates of (aes, aex, aey) \<Rightarrow>
          let ratio_x = equi L 0 * aex;
              ratio_y = equi L 1 * aey;
              ratio_s = equi L 2 * aes;
              s2 = (if ratio_x \<ge> 1 \<or> ratio_y \<ge> 1 \<or> ratio_s \<ge> 1
                    then s1\<lparr>ddt_var := ddt_var s1 / 2\<rparr> else s1)
          in rlx_push L c rates s2)
     else der_push L c rates s1
   }"

text \<open>
  The loop \<^verbatim>\<open>do { ... } while (i < nsteps);\<close> of lines 719-874: the body runs, then the
  counter is tested. Termination is proved in the next section.
\<close>

function fixed_loop :: "collaborators \<Rightarrow> settings \<Rightarrow> int \<Rightarrow> locals \<Rightarrow> locals option" where
  "fixed_loop L c nsteps s =
     (case fixed_body L c s of
        None \<Rightarrow> None
      | Some s' \<Rightarrow> if int (i_var s') < nsteps then fixed_loop L c nsteps s' else Some s')"
  by pat_completeness auto

text \<open>
  Lines 639-707: the seed of the energy spread is computed from \<^verbatim>\<open>sigs[0]\<close> and pushed
  onto the local copy of \<^verbatim>\<open>sige\<close>; \<^verbatim>\<open>sige2\<close> starts with the square of \<^verbatim>\<open>sige[0]\<close>;
  the first growth-rate call fills \<^verbatim>\<open>ibs\<close> when the model is one of the thirteen, and
  \<^verbatim>\<open>ibs\<close> is not read before the loop.
\<close>

definition fixed_init :: "collaborators \<Rightarrow> settings \<Rightarrow> real \<Rightarrow> series \<Rightarrow> locals option" where
  "fixed_init L c stepsize v = do {
     sg0 \<leftarrow> vget (sigs_vec v) 0;
     let sige0 = SigeFromRFAndSigs L sg0;
     let sige = sige_vec v @ [sige0];
     e0 \<leftarrow> vget sige 0;
     let sige2 = [e0 * e0];
     x0 \<leftarrow> vget (ex_vec v) 0;
     y0 \<leftarrow> vget (ey_vec v) 0;
     Some \<lparr>t_vec = t_vec v, ex_vec = ex_vec v, ey_vec = ey_vec v, sigs_vec = sigs_vec v,
           sige_vec = sige, sige2_vec = sige2, i_var = 0, ddt_var = stepsize,
           ibs_var = ibs_switch L (model c) (pnumber c) x0 y0 sg0 e0\<rparr>
   }"

text \<open>
  The fixed-step overload. \<open>ODE_fixed_run\<close> is the state of the local variables when the
  loop ends; \<open>ODE_fixed\<close> is what the caller holds afterwards: \<^verbatim>\<open>t\<close>, \<^verbatim>\<open>ex\<close>, \<^verbatim>\<open>ey\<close>
  and \<^verbatim>\<open>sigs\<close> are references and carry the pushes, \<^verbatim>\<open>sige\<close> is passed by value (line
  540) and the caller's vector is untouched.
\<close>

definition ODE_fixed_run ::
  "collaborators \<Rightarrow> series \<Rightarrow> int \<Rightarrow> real \<Rightarrow> int \<Rightarrow> real \<Rightarrow> int \<Rightarrow> string \<Rightarrow> locals option" where
  "ODE_fixed_run L v m pn nsteps stepsize couplingpercentage meth = do {
     let c = sanitized L m pn couplingpercentage meth;
     s0 \<leftarrow> fixed_init L c stepsize v;
     fixed_loop L c nsteps s0
   }"

definition returned :: "series \<Rightarrow> locals \<Rightarrow> series" where
  "returned v s = \<lparr>t_vec = t_vec s, ex_vec = ex_vec s, ey_vec = ey_vec s,
                   sigs_vec = sigs_vec s, sige_vec = sige_vec v\<rparr>"

definition ODE_fixed ::
  "collaborators \<Rightarrow> series \<Rightarrow> int \<Rightarrow> real \<Rightarrow> int \<Rightarrow> real \<Rightarrow> int \<Rightarrow> string \<Rightarrow> series option" where
  "ODE_fixed L v m pn nsteps stepsize couplingpercentage meth =
     map_option (returned v) (ODE_fixed_run L v m pn nsteps stepsize couplingpercentage meth)"

subsection \<open>The threshold overload\<close>

text \<open>
  The statements \<^verbatim>\<open>taum = max(taum, 1.0 / ibs[k])\<close> and \<^verbatim>\<open>ddt = min(ddt, 1.0 / ibs[k])\<close>.
  With \<^verbatim>\<open>ibs[k]\<close> zero the quotient is \<open>+\<infinity>\<close>: \<^verbatim>\<open>std::min\<close> keeps \<^verbatim>\<open>ddt\<close>, and
  \<^verbatim>\<open>std::max\<close> returns \<open>+\<infinity>\<close> and keeps returning it in the statements that follow. The
  running maximum is \<open>None\<close> when it is \<open>+\<infinity>\<close>.
\<close>

definition min_inv :: "real \<Rightarrow> real \<Rightarrow> real" where
  "min_inv d r = (if r = 0 then d else min d (1 / r))"

definition max_inv :: "real option \<Rightarrow> real \<Rightarrow> real option" where
  "max_inv a r =
     (case a of None \<Rightarrow> None | Some d \<Rightarrow> if r = 0 then None else Some (max d (1 / r)))"

text \<open>
  Lines 318-323 (\<^verbatim>\<open>taum\<close>, where the clamp \<^verbatim>\<open>min(taum, 1.0)\<close> turns \<open>+\<infinity>\<close> into 1) and
  326-330, 375-379 (\<^verbatim>\<open>ddt\<close> before the halving).
\<close>

definition tau_max :: "collaborators \<Rightarrow> real \<times> real \<times> real \<Rightarrow> real" where
  "tau_max L ib =
     (case ib of (ibs0, ibs1, ibs2) \<Rightarrow>
        (case max_inv (max_inv (max_inv (Some (max (max (equi L 0) (equi L 1)) (equi L 2))) ibs0)
                ibs1) ibs2 of
           None \<Rightarrow> 1
         | Some taum \<Rightarrow> min taum 1))"

definition tau_min :: "collaborators \<Rightarrow> real \<times> real \<times> real \<Rightarrow> real" where
  "tau_min L ib =
     (case ib of (ibs0, ibs1, ibs2) \<Rightarrow>
        min_inv (min_inv (min_inv (min (min (equi L 0) (equi L 1)) (equi L 2)) ibs0) ibs1) ibs2)"

text \<open>
  The cast \<^verbatim>\<open>(int)\<close> of line 336 truncates towards zero; the behaviour is undefined when
  the truncated value is not an \<^verbatim>\<open>int\<close> (32 bits).
\<close>

definition double_to_int :: "real \<Rightarrow> int option" where
  "double_to_int x =
     (let n = (if 0 \<le> x then \<lfloor>x\<rfloor> else \<lceil>x\<rceil>)
      in if - (2 ^ 31) \<le> n \<and> n < 2 ^ 31 then Some n else None)"

text \<open>
  The cast of a quotient \<^verbatim>\<open>(int)(a / b)\<close>: with \<^verbatim>\<open>b\<close> zero the quotient is an infinity or
  NaN, which no \<^verbatim>\<open>int\<close> represents, so the cast is undefined.
\<close>

definition quotient_to_int :: "real \<Rightarrow> real \<Rightarrow> int option" where
  "quotient_to_int a b = (if b = 0 then None else double_to_int (a / b))"

definition MaxSteps :: int where
  "MaxSteps = 10000"

text \<open>
  Lines 240-337: the seed of the energy spread is computed from \<^verbatim>\<open>equi[6]\<close>; the first
  growth-rate call; the budget \<^verbatim>\<open>ms\<close>. The result is the budget and the variables at the
  head of the loop.
\<close>

definition adaptive_init :: "collaborators \<Rightarrow> settings \<Rightarrow> series \<Rightarrow> (int \<times> locals) option" where
  "adaptive_init L c v = do {
     let sige0 = SigeFromRFAndSigs L (equi L 6);
     let sige = sige_vec v @ [sige0];
     e0 \<leftarrow> vget sige 0;
     let sige2 = [e0 * e0];
     x0 \<leftarrow> vget (ex_vec v) 0;
     y0 \<leftarrow> vget (ey_vec v) 0;
     sg0 \<leftarrow> vget (sigs_vec v) 0;
     ib \<leftarrow> ibs_switch L (model c) (pnumber c) x0 y0 sg0 e0;
     let taum = tau_max L ib;
     let dt = tau_min L ib;
     ms \<leftarrow> quotient_to_int (10 * taum) dt;
     Some (min ms MaxSteps,
           \<lparr>t_vec = t_vec v, ex_vec = ex_vec v, ey_vec = ey_vec v, sigs_vec = sigs_vec v,
            sige_vec = sige, sige2_vec = sige2, i_var = 0, ddt_var = dt, ibs_var = Some ib\<rparr>)
   }"

text \<open>
  One pass through the body of the \<^verbatim>\<open>do\<close> loop, lines 374-513: the step is recomputed
  from the array \<^verbatim>\<open>ibs\<close> as it stands, then \<^verbatim>\<open>ibs\<close> is refreshed at index \<^verbatim>\<open>i\<close>, then
  \<^verbatim>\<open>i++\<close>, then one of the two blocks.
\<close>

definition adaptive_body :: "collaborators \<Rightarrow> settings \<Rightarrow> locals \<Rightarrow> locals option" where
  "adaptive_body L c s = do {
     ib \<leftarrow> ibs_var s;
     let dt = tau_min L ib / 2;
     rates \<leftarrow> ibs_update L c s;
     let s1 = s\<lparr>ddt_var := dt, ibs_var := Some rates, i_var := Suc (i_var s)\<rparr>;
     if method_name c = ''rlx'' then rlx_push L c rates (s1\<lparr>ddt_var := ddt_var s1 * 4\<rparr>)
     else der_push L c rates s1
   }"

text \<open>
  The relative change \<^verbatim>\<open>fabs((v[i] - v[i - 1]) / v[i - 1])\<close> of lines 516-518. With a zero
  previous entry the quotient is \<open>\<plusminus>\<infinity>\<close> and its absolute value \<open>+\<infinity>\<close>, or NaN when the
  new entry is zero as well. The comparison \<^verbatim>\<open>> threshold\<close> holds for \<open>+\<infinity>\<close> and fails
  for NaN.
\<close>

datatype change = Change real | Unbounded | Undefined

definition rel_change :: "real list \<Rightarrow> nat \<Rightarrow> change option" where
  "rel_change v i = do {
     a \<leftarrow> vget v i;
     b \<leftarrow> vget v (i - 1);
     Some (if b \<noteq> 0 then Change \<bar>(a - b) / b\<bar> else if a \<noteq> 0 then Unbounded else Undefined)
   }"

fun exceeds :: "change \<Rightarrow> real \<Rightarrow> bool" where
  "exceeds (Change r) threshold = (r > threshold)"
| "exceeds Unbounded threshold = True"
| "exceeds Undefined threshold = False"

text \<open>
  The condition of the \<^verbatim>\<open>while\<close>, lines 516-518, with the short-circuit evaluation of
  \<^verbatim>\<open>&&\<close> and \<^verbatim>\<open>||\<close>.
\<close>

definition adaptive_continue :: "int \<Rightarrow> real \<Rightarrow> locals \<Rightarrow> bool option" where
  "adaptive_continue ms threshold s =
     (if int (i_var s) < ms then do {
        rx \<leftarrow> rel_change (ex_vec s) (i_var s);
        if exceeds rx threshold then Some True else do {
          ry \<leftarrow> rel_change (ey_vec s) (i_var s);
          if exceeds ry threshold then Some True else do {
            rs \<leftarrow> rel_change (sigs_vec s) (i_var s);
            Some (exceeds rs threshold)
          }
        }
      } else Some False)"

text \<open>
  The loop \<^verbatim>\<open>do { ... } while (i < ms && (...));\<close> of lines 359-518. Termination is
  proved in the next section.
\<close>

function adaptive_loop :: "collaborators \<Rightarrow> settings \<Rightarrow> int \<Rightarrow> real \<Rightarrow> locals \<Rightarrow> locals option" where
  "adaptive_loop L c ms threshold s =
     (case adaptive_body L c s of
        None \<Rightarrow> None
      | Some s' \<Rightarrow>
          (case adaptive_continue ms threshold s' of
             None \<Rightarrow> None
           | Some go \<Rightarrow> if go then adaptive_loop L c ms threshold s' else Some s'))"
  by pat_completeness auto

definition ODE_adaptive_run ::
  "collaborators \<Rightarrow> series \<Rightarrow> int \<Rightarrow> real \<Rightarrow> int \<Rightarrow> real \<Rightarrow> string \<Rightarrow> locals option" where
  "ODE_adaptive_run L v m pn couplingpercentage threshold meth = do {
     let c = sanitized L m pn couplingpercentage meth;
     (ms, s0) \<leftarrow> adaptive_init L c v;
     adaptive_loop L c ms (sanitize_threshold threshold) s0
   }"

definition ODE_adaptive ::
  "collaborators \<Rightarrow> series \<Rightarrow> int \<Rightarrow> real \<Rightarrow> int \<Rightarrow> real \<Rightarrow> string \<Rightarrow> series option" where
  "ODE_adaptive L v m pn couplingpercentage threshold meth =
     map_option (returned v) (ODE_adaptive_run L v m pn couplingpercentage threshold meth)"

subsection \<open>Notions used in the statements\<close>

text \<open>One pass appends one element to each of the six vectors and leaves the earlier elements alone.\<close>

definition pushed :: "locals \<Rightarrow> locals \<Rightarrow> bool" where
  "pushed s s' \<longleftrightarrow>
     (\<exists>a. t_vec s' = t_vec s @ [a]) \<and> (\<exists>a. ex_vec s' = ex_vec s @ [a]) \<and>
     (\<exists>a. ey_vec s' = ey_vec s @ [a]) \<and> (\<exists>a. sigs_vec s' = sigs_vec s @ [a]) \<and>
     (\<exists>a. sige_vec s' = sige_vec s @ [a]) \<and> (\<exists>a. sige2_vec s' = sige2_vec s @ [a])"

text \<open>The reads at index \<^verbatim>\<open>i\<close> at the head of a pass are inside the five vectors.\<close>

definition in_range :: "locals \<Rightarrow> bool" where
  "in_range s \<longleftrightarrow>
     i_var s < length (t_vec s) \<and> i_var s < length (ex_vec s) \<and> i_var s < length (ey_vec s) \<and>
     i_var s < length (sigs_vec s) \<and> i_var s < length (sige_vec s)"

text \<open>The model identifiers the switch has a case for.\<close>

definition supported :: "int \<Rightarrow> bool" where
  "supported m \<longleftrightarrow> 1 \<le> m \<and> m \<le> 13"

text \<open>
  The four vectors passed by reference hold at least the seed. (The copy of \<^verbatim>\<open>sige\<close>
  receives an element before its first read.)
\<close>

definition seeded :: "series \<Rightarrow> bool" where
  "seeded v \<longleftrightarrow> t_vec v \<noteq> [] \<and> ex_vec v \<noteq> [] \<and> ey_vec v \<noteq> [] \<and> sigs_vec v \<noteq> []"

text \<open>After \<open>k\<close> passes: the counter and the six lengths have advanced by \<open>k\<close>.\<close>

definition grown :: "nat \<Rightarrow> locals \<Rightarrow> locals \<Rightarrow> bool" where
  "grown k s s' \<longleftrightarrow>
     i_var s' = i_var s + k \<and>
     length (t_vec s') = length (t_vec s) + k \<and> length (ex_vec s') = length (ex_vec s) + k \<and>
     length (ey_vec s') = length (ey_vec s) + k \<and> length (sigs_vec s') = length (sigs_vec s) + k \<and>
     length (sige_vec s') = length (sige_vec s) + k \<and> length (sige2_vec s') = length (sige2_vec s) + k"



subsection \<open>The budget of the threshold overload\<close>

text \<open>
  The array \<^verbatim>\<open>ibs\<close> of the first growth-rate call (lines 263-315), and the condition that
  the cast of line 336 is defined.
\<close>

definition initial_rates :: "collaborators \<Rightarrow> series \<Rightarrow> int \<Rightarrow> real \<Rightarrow> real \<times> real \<times> real" where
  "initial_rates L v m pn =
     models L m pn (ex_vec v ! 0) (ey_vec v ! 0) (sigs_vec v ! 0)
       ((sige_vec v @ [SigeFromRFAndSigs L (equi L 6)]) ! 0)"

definition budget_fits :: "collaborators \<Rightarrow> series \<Rightarrow> int \<Rightarrow> real \<Rightarrow> bool" where
  "budget_fits L v m pn \<longleftrightarrow>
     quotient_to_int (10 * tau_max L (initial_rates L v m pn)) (tau_min L (initial_rates L v m pn))
       \<noteq> None"

subsection \<open>Updates without a zero divisor\<close>

text \<open>
  The update blocks divide by \<^verbatim>\<open>1.0 - ratio\<close> (relaxation, lines 485-487) or by the damping
  times (derivative, lines 500-505) and take the square root of \<^verbatim>\<open>equi[5]\<close>. A pass is
  regular when, for the growth rates it works with, none of the divisors of the selected
  scheme is zero and \<^verbatim>\<open>equi[5]\<close> is not negative: there the quotients and the root of the
  model are those of the program. A lattice is regular when every pass is, whatever the
  growth-rate function returns.
\<close>

definition regular_pass :: "collaborators \<Rightarrow> settings \<Rightarrow> real \<times> real \<times> real \<Rightarrow> bool" where
  "regular_pass L c rates \<longleftrightarrow>
     (case rates of (aes, aex, aey) \<Rightarrow>
        0 \<le> equi L 5 \<and>
        (if method_name c = ''rlx''
         then equi L 0 * aex \<noteq> 1 \<and> equi L 1 * aey \<noteq> 1 \<and> equi L 2 * aes \<noteq> 1
         else equi L 0 \<noteq> 0 \<and> equi L 1 \<noteq> 0 \<and> equi L 2 \<noteq> 0))"


subsection \<open>Concrete lattices and seeds\<close>

text \<open>
  A lattice with all damping times and equilibrium values equal to 1, growth rates 0, a seed
  energy spread of twice the bunch length and \<^verbatim>\<open>sigsfromsige\<close> returning its first argument;
  and the seed series with one entry per vector.
\<close>

definition flat_lattice :: collaborators where
  "flat_lattice = \<lparr>gamma = 1, gammatr = 2, omegas = 1, equi = (\<lambda>k. 1),
     SigeFromRFAndSigs = (\<lambda>s. 2 * s), sigsfromsige = (\<lambda>e g gt om. e),
     models = (\<lambda>m pn x y s e. (0, 0, 0))\<rparr>"

definition unit_seed :: series where
  "unit_seed = \<lparr>t_vec = [0], ex_vec = [1], ey_vec = [1], sigs_vec = [1], sige_vec = [1]\<rparr>"

text \<open>
  A lattice with growth rates 1, damping times 1 and equilibrium emittances 1/2: from the
  unit seed the derivative scheme moves \<^verbatim>\<open>ex\<close> and \<^verbatim>\<open>ey\<close> from 1 to 3/2 in its first
  pass.
\<close>

definition drift_lattice :: collaborators where
  "drift_lattice = \<lparr>gamma = 1, gammatr = 2, omegas = 1,
     equi = (\<lambda>k. if k = 3 \<or> k = 4 then 1 / 2 else 1),
     SigeFromRFAndSigs = (\<lambda>s. s), sigsfromsige = (\<lambda>e g gt om. e),
     models = (\<lambda>m pn x y s e. (1, 1, 1))\<rparr>"

text \<open>
  A seed with bunch length 3 and an empty energy-spread vector; the variables at the head of
  a first pass with every value at its equilibrium on the flat lattice; the settings of a
  run with model 1, no coupling and the derivative scheme.
\<close>

definition wide_seed :: series where
  "wide_seed = \<lparr>t_vec = [0], ex_vec = [1], ey_vec = [1], sigs_vec = [3], sige_vec = []\<rparr>"

definition unit_locals :: locals where
  "unit_locals = \<lparr>t_vec = [0], ex_vec = [1], ey_vec = [1], sigs_vec = [1], sige_vec = [1, 2],
     sige2_vec = [1], i_var = 0, ddt_var = 3, ibs_var = Some (0, 0, 0)\<rparr>"

definition der_settings :: settings where
  "der_settings = \<lparr>model = 1, pnumber = 1, coupling = 0, ey0_coupled = 1, method_name = ''der''\<rparr>"

text \<open>
  A lattice whose horizontal growth rate is 2 with damping time 1, so that the product
  \<^verbatim>\<open>ratio_x\<close> is 2; a lattice with damping times 5 whose growth rates all equal the current
  \<^verbatim>\<open>ex\<close>, with the seed and the variables at the head of its first pass.
\<close>

definition hot_lattice :: collaborators where
  "hot_lattice = \<lparr>gamma = 1, gammatr = 2, omegas = 1, equi = (\<lambda>k. 1),
     SigeFromRFAndSigs = (\<lambda>s. 2 * s), sigsfromsige = (\<lambda>e g gt om. e),
     models = (\<lambda>m pn x y s e. (0, 2, 0))\<rparr>"

definition scaling_lattice :: collaborators where
  "scaling_lattice = \<lparr>gamma = 1, gammatr = 2, omegas = 1,
     equi = (\<lambda>k. if k < 3 then 5 else if k = 3 \<or> k = 4 then 1 / 4 else 1),
     SigeFromRFAndSigs = (\<lambda>s. s), sigsfromsige = (\<lambda>e g gt om. e),
     models = (\<lambda>m pn x y s e. (x, x, x))\<rparr>"

definition quarter_seed :: series where
  "quarter_seed = \<lparr>t_vec = [0], ex_vec = [1 / 4], ey_vec = [1 / 4], sigs_vec = [1], sige_vec = [1]\<rparr>"

text \<open>
  The growth rates that the switch returns for the entries at index \<open>k\<close> of the four
  vectors.
\<close>

definition rates_at :: "collaborators \<Rightarrow> settings \<Rightarrow> locals \<Rightarrow> nat \<Rightarrow> real \<times> real \<times> real" where
  "rates_at L c s k =
     models L (model c) (pnumber c) (ex_vec s ! k) (ey_vec s ! k) (sigs_vec s ! k) (sige_vec s ! k)"

definition quarter_locals :: locals where
  "quarter_locals = \<lparr>t_vec = [0], ex_vec = [1 / 4], ey_vec = [1 / 4], sigs_vec = [1],
     sige_vec = [1, 1], sige2_vec = [1], i_var = 0, ddt_var = 4,
     ibs_var = Some (1 / 4, 1 / 4, 1 / 4)\<rparr>"

section \<open>Termination and basic facts\<close>

lemma rlx_push_i: "rlx_push L c rates s = Some s' \<Longrightarrow> i_var s' = i_var s"
  by (auto simp: rlx_push_def Let_def split: prod.splits Option.bind_splits)

lemma der_push_i: "der_push L c rates s = Some s' \<Longrightarrow> i_var s' = i_var s"
  by (auto simp: der_push_def Let_def split: prod.splits Option.bind_splits)

lemma fixed_body_i: "fixed_body L c s = Some s' \<Longrightarrow> i_var s' = Suc (i_var s)"
  by (auto simp: fixed_body_def Let_def split: prod.splits Option.bind_splits if_splits
      dest!: rlx_push_i der_push_i)

termination fixed_loop
  by (relation "measure (\<lambda>(L, c, nsteps, s). nat (nsteps - int (i_var s)))")
     (auto dest: fixed_body_i)

lemma adaptive_body_i: "adaptive_body L c s = Some s' \<Longrightarrow> i_var s' = Suc (i_var s)"
  by (auto simp: adaptive_body_def Let_def split: Option.bind_splits if_splits
      dest!: rlx_push_i der_push_i)

termination adaptive_loop
  by (relation "measure (\<lambda>(L, c, ms, threshold, s). nat (ms - int (i_var s)))")
     (auto simp: adaptive_continue_def dest: adaptive_body_i split: if_splits)

lemma vget_Some: "k < length v \<Longrightarrow> vget v k = Some (v ! k)"
  by (simp add: vget_def)

lemma vget_SomeD: "vget v k = Some x \<Longrightarrow> k < length v \<and> x = v ! k"
  by (simp add: vget_def split: if_splits)

lemma rlx_push_pushed: "rlx_push L c rates s = Some s' \<Longrightarrow> pushed s s'"
  by (auto simp: rlx_push_def pushed_def Let_def split: prod.splits Option.bind_splits)

lemma der_push_pushed: "der_push L c rates s = Some s' \<Longrightarrow> pushed s s'"
  by (auto simp: der_push_def pushed_def Let_def split: prod.splits Option.bind_splits)

lemma pushed_upd [simp]:
  "pushed (s\<lparr>ddt_var := d\<rparr>) s' = pushed s s'"
  "pushed (s\<lparr>ibs_var := b\<rparr>) s' = pushed s s'"
  "pushed (s\<lparr>i_var := k\<rparr>) s' = pushed s s'"
  by (simp_all add: pushed_def)

lemma fixed_body_pushed: "fixed_body L c s = Some s' \<Longrightarrow> pushed s s'"
  by (auto simp: fixed_body_def Let_def split: prod.splits Option.bind_splits if_splits
      dest!: rlx_push_pushed der_push_pushed)

lemma adaptive_body_pushed: "adaptive_body L c s = Some s' \<Longrightarrow> pushed s s'"
  by (auto simp: adaptive_body_def Let_def split: prod.splits Option.bind_splits if_splits
      dest!: rlx_push_pushed der_push_pushed)

lemma rlx_push_total:
  assumes "0 < i_var s" "i_var s \<le> length (t_vec s)" "i_var s \<le> length (ex_vec s)"
    "i_var s \<le> length (ey_vec s)" "i_var s \<le> length (sige_vec s)"
  shows "\<exists>s'. rlx_push L c rates s = Some s'"
  using assms by (cases rates) (auto simp: rlx_push_def Let_def vget_def)

lemma der_push_total:
  assumes "0 < i_var s" "i_var s \<le> length (t_vec s)" "i_var s \<le> length (ex_vec s)"
    "i_var s \<le> length (ey_vec s)" "i_var s \<le> length (sige_vec s)"
  shows "\<exists>s'. der_push L c rates s = Some s'"
  using assms by (cases rates) (auto simp: der_push_def Let_def vget_def)

lemma ibs_update_total:
  "in_range s \<Longrightarrow> supported (model c) \<Longrightarrow> \<exists>r. ibs_update L c s = Some r"
  by (auto simp: ibs_update_def in_range_def supported_def vget_def ibs_switch_def)
     (metis prod_cases3)

lemma pushed_in_range:
  "pushed s s' \<Longrightarrow> in_range s \<Longrightarrow> i_var s' = Suc (i_var s) \<Longrightarrow> in_range s'"
  by (auto simp: pushed_def in_range_def)

lemma fixed_body_total:
  assumes "in_range s" "supported (model c)"
  shows "\<exists>s'. fixed_body L c s = Some s'"
proof -
  from assms obtain r where r: "ibs_update L c s = Some r"
    using ibs_update_total by blast
  obtain aes aex aey where rr: "r = (aes, aex, aey)" by (cases r) 
  show ?thesis
    using assms(1) r rr
    by (auto simp: fixed_body_def Let_def in_range_def intro!: rlx_push_total der_push_total)
qed

lemma adaptive_body_total:
  assumes "in_range s" "supported (model c)" "ibs_var s \<noteq> None"
  shows "\<exists>s'. adaptive_body L c s = Some s'"
proof -
  from assms obtain r where r: "ibs_update L c s = Some r"
    using ibs_update_total by blast
  from assms obtain ib where ib: "ibs_var s = Some ib" by auto
  show ?thesis
    using assms(1) r ib
    by (auto simp: adaptive_body_def Let_def in_range_def intro!: rlx_push_total der_push_total)
qed

lemma pushed_grown: "pushed s s' \<Longrightarrow> i_var s' = Suc (i_var s) \<Longrightarrow> grown 1 s s'"
  by (auto simp: pushed_def grown_def)

lemma grown_trans: "grown j s s' \<Longrightarrow> grown k s' s'' \<Longrightarrow> grown (j + k) s s''"
  by (simp add: grown_def)

lemma fixed_body_grown: "fixed_body L c s = Some s' \<Longrightarrow> grown 1 s s'"
  by (rule pushed_grown) (erule fixed_body_pushed, erule fixed_body_i)

lemma adaptive_body_grown: "adaptive_body L c s = Some s' \<Longrightarrow> grown 1 s s'"
  by (rule pushed_grown) (erule adaptive_body_pushed, erule adaptive_body_i)

lemma grown_in_range: "grown k s s' \<Longrightarrow> in_range s \<Longrightarrow> in_range s'"
  by (auto simp: grown_def in_range_def)

lemma fixed_loop_count:
  "fixed_loop L c n s = Some sf \<Longrightarrow> int (i_var sf) = max (int (i_var s) + 1) n"
proof (induction L c n s rule: fixed_loop.induct)
  case (1 L c n s)
  from "1.prems" obtain s' where b: "fixed_body L c s = Some s'"
    by (subst (asm) fixed_loop.simps) (auto split: option.splits)
  have i: "i_var s' = Suc (i_var s)" using b by (rule fixed_body_i)
  show ?case
  proof (cases "int (i_var s') < n")
    case True
    with "1.prems" b have "fixed_loop L c n s' = Some sf"
      by (subst (asm) fixed_loop.simps) simp
    from "1.IH" [OF b True this] i True show ?thesis by simp
  next
    case False
    with "1.prems" b have "sf = s'"
      by (subst (asm) fixed_loop.simps) simp
    with i False show ?thesis by simp
  qed
qed

lemma fixed_loop_grown:
  "fixed_loop L c n s = Some sf \<Longrightarrow> \<exists>k. grown k s sf"
proof (induction L c n s rule: fixed_loop.induct)
  case (1 L c n s)
  from "1.prems" obtain s' where b: "fixed_body L c s = Some s'"
    by (subst (asm) fixed_loop.simps) (auto split: option.splits)
  have g: "grown 1 s s'" using b by (rule fixed_body_grown)
  show ?case
  proof (cases "int (i_var s') < n")
    case True
    with "1.prems" b have "fixed_loop L c n s' = Some sf"
      by (subst (asm) fixed_loop.simps) simp
    from "1.IH" [OF b True this] obtain k where "grown k s' sf" ..
    with g have "grown (1 + k) s sf" by (rule grown_trans)
    then show ?thesis ..
  next
    case False
    with "1.prems" b have "sf = s'"
      by (subst (asm) fixed_loop.simps) simp
    with g show ?thesis by blast
  qed
qed

lemma fixed_loop_total:
  "in_range s \<Longrightarrow> supported (model c) \<Longrightarrow> \<exists>sf. fixed_loop L c n s = Some sf"
proof (induction L c n s rule: fixed_loop.induct)
  case (1 L c n s)
  from fixed_body_total [OF "1.prems"] obtain s' where b: "fixed_body L c s = Some s'" ..
  have r: "in_range s'" using fixed_body_grown [OF b] "1.prems"(1) by (rule grown_in_range)
  show ?case
  proof (cases "int (i_var s') < n")
    case True
    from "1.IH" [OF b True r "1.prems"(2)] obtain sf where "fixed_loop L c n s' = Some sf" ..
    with b True have "fixed_loop L c n s = Some sf"
      by (subst fixed_loop.simps) simp
    then show ?thesis ..
  next
    case False
    with b have "fixed_loop L c n s = Some s'"
      by (subst fixed_loop.simps) simp
    then show ?thesis ..
  qed
qed



lemma rel_change_total: "0 < i \<Longrightarrow> i < length v \<Longrightarrow> \<exists>r. rel_change v i = Some r"
  by (simp add: rel_change_def vget_def)

lemma adaptive_continue_total:
  assumes "in_range s" "0 < i_var s"
  shows "\<exists>go. adaptive_continue ms th s = Some go"
proof -
  from assms obtain rx ry rs where
    "rel_change (ex_vec s) (i_var s) = Some rx" "rel_change (ey_vec s) (i_var s) = Some ry"
    "rel_change (sigs_vec s) (i_var s) = Some rs"
    using rel_change_total unfolding in_range_def by meson
  then show ?thesis by (auto simp: adaptive_continue_def)
qed

lemma rlx_push_ibs: "rlx_push L c rates s = Some s' \<Longrightarrow> ibs_var s' = ibs_var s"
  by (auto simp: rlx_push_def Let_def split: prod.splits Option.bind_splits)

lemma der_push_ibs: "der_push L c rates s = Some s' \<Longrightarrow> ibs_var s' = ibs_var s"
  by (auto simp: der_push_def Let_def split: prod.splits Option.bind_splits)

lemma adaptive_body_ibs: "adaptive_body L c s = Some s' \<Longrightarrow> ibs_var s' = ibs_update L c s"
  by (auto simp: adaptive_body_def Let_def split: Option.bind_splits if_splits
      dest!: rlx_push_ibs der_push_ibs)

lemma adaptive_loop_total:
  "in_range s \<Longrightarrow> supported (model c) \<Longrightarrow> ibs_var s \<noteq> None \<Longrightarrow>
   \<exists>sf. adaptive_loop L c ms th s = Some sf"
proof (induction L c ms th s rule: adaptive_loop.induct)
  case (1 L c ms th s)
  from adaptive_body_total [OF "1.prems"] obtain s' where b: "adaptive_body L c s = Some s'" ..
  have g: "grown 1 s s'" using b by (rule adaptive_body_grown)
  have r: "in_range s'" using g "1.prems"(1) by (rule grown_in_range)
  have "0 < i_var s'" using g by (simp add: grown_def)
  with r obtain go where co: "adaptive_continue ms th s' = Some go"
    using adaptive_continue_total by blast
  have ib: "ibs_var s' \<noteq> None" using adaptive_body_ibs [OF b] b
    by (auto simp: adaptive_body_def split: Option.bind_splits)
  show ?case
  proof (cases go)
    case True
    from "1.IH" [OF b co True r "1.prems"(2) ib]
    obtain sf where "adaptive_loop L c ms th s' = Some sf" ..
    with b co True have "adaptive_loop L c ms th s = Some sf"
      by (subst adaptive_loop.simps) simp
    then show ?thesis ..
  next
    case False
    with b co have "adaptive_loop L c ms th s = Some s'"
      by (subst adaptive_loop.simps) simp
    then show ?thesis ..
  qed
qed



section \<open>The fixed-step overload runs to its step count\<close>

lemma fixed_init_total:
  assumes "seeded v"
  shows "\<exists>s0. fixed_init L c dt v = Some s0"
  using assms by (auto simp: fixed_init_def seeded_def vget_def Let_def)

lemma fixed_init_facts:
  assumes "fixed_init L c dt v = Some s0"
  shows "t_vec s0 = t_vec v" "ex_vec s0 = ex_vec v" "ey_vec s0 = ey_vec v"
    "sigs_vec s0 = sigs_vec v" "i_var s0 = 0" "ddt_var s0 = dt"
    "t_vec v \<noteq> [] \<Longrightarrow> in_range s0"
    "\<exists>sg0. vget (sigs_vec v) 0 = Some sg0 \<and> sige_vec s0 = sige_vec v @ [SigeFromRFAndSigs L sg0]"
  using assms
  by (auto simp: fixed_init_def Let_def in_range_def vget_def split: Option.bind_splits if_splits)

lemma ODE_fixed_run_steps:
  assumes "ODE_fixed_run L v m pn N dt cp meth = Some sf"
  shows "\<exists>s0. fixed_init L (sanitized L m pn cp meth) dt v = Some s0 \<and> grown (nat (max 1 N)) s0 sf"
proof -
  let ?c = "sanitized L m pn cp meth"
  from assms obtain s0 where s0: "fixed_init L ?c dt v = Some s0"
    and l: "fixed_loop L ?c N s0 = Some sf"
    by (auto simp: ODE_fixed_run_def Let_def split: Option.bind_splits)
  from fixed_loop_grown [OF l] obtain k where k: "grown k s0 sf" ..
  from fixed_loop_count [OF l] fixed_init_facts(5) [OF s0]
  have "int (i_var sf) = max 1 N" by simp
  moreover from k fixed_init_facts(5) [OF s0] have "i_var sf = k" by (simp add: grown_def)
  ultimately have "k = nat (max 1 N)" by linarith
  with k s0 show ?thesis by simp
qed

lemma ODE_fixed_run_total:
  assumes "seeded v" "supported m"
  shows "\<exists>sf. ODE_fixed_run L v m pn N dt cp meth = Some sf"
proof -
  let ?c = "sanitized L m pn cp meth"
  from fixed_init_total [OF assms(1)] obtain s0 where s0: "fixed_init L ?c dt v = Some s0" ..
  have "supported (model ?c)" using assms(2) by (simp add: sanitized_def Let_def)
  have "in_range s0" using fixed_init_facts(7) [OF s0] assms(1) by (simp add: seeded_def)
  from fixed_loop_total [OF this \<open>supported (model ?c)\<close>]
  obtain sf where "fixed_loop L ?c N s0 = Some sf" ..
  with s0 show ?thesis by (simp add: ODE_fixed_run_def Let_def)
qed

text \<open>The unfolding rules with which a run on concrete data is evaluated.\<close>

lemmas run_defs = ODE_fixed_def ODE_fixed_run_def fixed_init_def fixed_body_def der_push_def rlx_push_def
     ibs_update_def ibs_switch_def vget_def sanitized_def sanitize_method_def sanitize_coupling_def
     returned_def Let_def dxdt_def dydt_def dedt_def

section \<open>The threshold overload returns\<close>

lemma adaptive_init_total:
  assumes "seeded v" "supported m" "budget_fits L v m pn" "model c = m" "pnumber c = pn"
  shows "\<exists>ms s0. adaptive_init L c v = Some (ms, s0)"
  using assms
  by (auto simp: adaptive_init_def seeded_def supported_def budget_fits_def initial_rates_def
      vget_def ibs_switch_def Let_def)

lemma adaptive_init_facts:
  assumes "adaptive_init L c v = Some (ms, s0)"
  shows "t_vec s0 = t_vec v" "ex_vec s0 = ex_vec v" "ey_vec s0 = ey_vec v"
    "sigs_vec s0 = sigs_vec v" "i_var s0 = 0"
    "sige_vec s0 = sige_vec v @ [SigeFromRFAndSigs L (equi L 6)]"
    "t_vec v \<noteq> [] \<Longrightarrow> in_range s0"
    "supported (model c)"
    "ibs_var s0 = Some (initial_rates L v (model c) (pnumber c))"
    "quotient_to_int (10 * tau_max L (initial_rates L v (model c) (pnumber c)))
        (tau_min L (initial_rates L v (model c) (pnumber c))) \<noteq> None"
    "ms = min (the (quotient_to_int (10 * tau_max L (initial_rates L v (model c) (pnumber c)))
        (tau_min L (initial_rates L v (model c) (pnumber c))))) MaxSteps"
  using assms
  by (auto simp: adaptive_init_def Let_def in_range_def vget_def supported_def ibs_switch_def
      initial_rates_def split: Option.bind_splits if_splits)

lemma ODE_adaptive_run_total:
  assumes "seeded v" "supported m" "budget_fits L v m pn"
  shows "\<exists>sf. ODE_adaptive_run L v m pn cp th meth = Some sf"
proof -
  let ?c = "sanitized L m pn cp meth"
  have c: "model ?c = m" "pnumber ?c = pn" by (simp_all add: sanitized_def Let_def)
  from adaptive_init_total [OF assms c] obtain ms s0
    where s0: "adaptive_init L ?c v = Some (ms, s0)" by blast
  have "in_range s0" using adaptive_init_facts(7) [OF s0] assms(1) by (simp add: seeded_def)
  moreover have "supported (model ?c)" using assms(2) c by simp
  moreover have "ibs_var s0 \<noteq> None" using adaptive_init_facts(9) [OF s0] by simp
  ultimately obtain sf where "adaptive_loop L ?c ms (sanitize_threshold th) s0 = Some sf"
    using adaptive_loop_total by blast
  with s0 show ?thesis by (simp add: ODE_adaptive_run_def Let_def)
qed

section \<open>Sanitised settings\<close>

lemma sanitize_coupling_out: "cp > 100 \<or> cp < 0 \<Longrightarrow> sanitize_coupling cp = sanitize_coupling 0"
  by (auto simp: sanitize_coupling_def)

lemma sanitize_method_other:
  "\<not> (meth = ''rlx'' \<or> meth = ''der'') \<Longrightarrow> sanitize_method meth = sanitize_method ''der''"
  by (simp add: sanitize_method_def)

lemma sanitize_threshold_out:
  "th > 1 \<or> th < 1 / 10 ^ 6 \<Longrightarrow> sanitize_threshold th = sanitize_threshold (1 / 10 ^ 4)"
  by (auto simp: sanitize_threshold_def)

lemma unit_seed_seeded: "seeded unit_seed"
  by (simp add: seeded_def unit_seed_def)

lemma drift_budget_fits: "budget_fits drift_lattice unit_seed 1 1"
  by (simp add: budget_fits_def initial_rates_def drift_lattice_def unit_seed_def tau_max_def
      tau_min_def min_inv_def max_inv_def quotient_to_int_def double_to_int_def)

section \<open>The derivative block at the equilibrium\<close>

lemma der_push_at_rest:
  assumes "vget (ex_vec s) (i_var s - 1) = Some (equi L 3)"
    and "vget (ey_vec s) (i_var s - 1) = Some (ey0_coupled c)"
    and "vget (sige_vec s) (i_var s - 1) = Some (sqrt (equi L 5))"
    and "vget (t_vec s) (i_var s - 1) \<noteq> None"
    and "0 < i_var s"
  shows "\<exists>s'. der_push L c (0, 0, 0) s = Some s' \<and> ex_vec s' = ex_vec s @ [equi L 3] \<and>
           ey_vec s' = ey_vec s @ [ey0_coupled c] \<and>
           sige_vec s' = sige_vec s @ [sqrt (equi L 5)]"
proof -
  from assms(3) have "i_var s - 1 < length (sige_vec s)" by (simp add: vget_def split: if_splits)
  with assms(5) have "i_var s \<le> length (sige_vec s)" by simp
  then have "\<exists>e. vget (sige_vec s @ [a]) (i_var s) = Some e" for a
    by (simp add: vget_def)
  then obtain e where "vget (sige_vec s @ [sqrt (equi L 5)]) (i_var s) = Some e" by blast
  with assms(1-4) show ?thesis
    by (auto simp: der_push_def Let_def dxdt_def dydt_def dedt_def)
qed

section \<open>The step of the threshold overload\<close>

lemmas adaptive_defs = ODE_adaptive_def ODE_adaptive_run_def adaptive_init_def adaptive_body_def
  adaptive_continue_def rel_change_def tau_max_def tau_min_def min_inv_def max_inv_def
  quotient_to_int_def double_to_int_def MaxSteps_def
  sanitize_threshold_def

lemma ibs_update_SomeD:
  assumes "ibs_update L c s = Some r"
  shows "r = rates_at L c s (i_var s)" "i_var s < length (ex_vec s)" "i_var s < length (ey_vec s)"
    "i_var s < length (sigs_vec s)" "i_var s < length (sige_vec s)"
  using assms
  by (auto simp: ibs_update_def rates_at_def ibs_switch_def vget_def
      split: Option.bind_splits if_splits)

lemma pushed_rates_at:
  assumes "pushed p s" "k < length (ex_vec p)" "k < length (ey_vec p)"
    "k < length (sigs_vec p)" "k < length (sige_vec p)"
  shows "rates_at L c s k = rates_at L c p k"
  using assms by (auto simp: pushed_def rates_at_def nth_append)


text \<open>
  With nonzero growth rates the step and the clamped maximum are the plain minimum and
  maximum over the three damping times and the three inverse rates; with all rates zero
  only the damping times count and the clamp gives 1.
\<close>

lemma tau_min_nonzero:
  assumes "ibs0 \<noteq> 0" "ibs1 \<noteq> 0" "ibs2 \<noteq> 0"
  shows "tau_min L (ibs0, ibs1, ibs2) =
    min (min (min (min (min (equi L 0) (equi L 1)) (equi L 2)) (1 / ibs0)) (1 / ibs1)) (1 / ibs2)"
  using assms by (simp add: tau_min_def min_inv_def)

lemma tau_max_nonzero:
  assumes "ibs0 \<noteq> 0" "ibs1 \<noteq> 0" "ibs2 \<noteq> 0"
  shows "tau_max L (ibs0, ibs1, ibs2) =
    min (max (max (max (max (max (equi L 0) (equi L 1)) (equi L 2)) (1 / ibs0)) (1 / ibs1)) (1 / ibs2)) 1"
  using assms by (simp add: tau_max_def max_inv_def)

lemma tau_zero_rates:
  "tau_min L (0, 0, 0) = min (min (equi L 0) (equi L 1)) (equi L 2)" "tau_max L (0, 0, 0) = 1"
  by (simp_all add: tau_min_def min_inv_def tau_max_def max_inv_def)

lemma adaptive_body_pushes:
  assumes "adaptive_body L c s = Some s'"
  shows "\<exists>ib aes aex aey.
      ibs_var s = Some ib \<and> rates_at L c s (i_var s) = (aes, aex, aey) \<and>
      ddt_var s' = tau_min L ib / 2 * (if method_name c = ''rlx'' then 4 else 1) \<and>
      ibs_var s' = Some (aes, aex, aey) \<and>
      t_vec s' = t_vec s @ [t_vec s ! i_var s + ddt_var s'] \<and>
      (if method_name c = ''rlx'' then
         ex_vec s' = ex_vec s @ [ex_vec s ! i_var s +
           ddt_var s' * (1 / (1 - equi L 0 * aex) * equi L 3 - ex_vec s ! i_var s)] \<and>
         ey_vec s' = ey_vec s @ [ey_vec s ! i_var s +
           ddt_var s' * (((1 - coupling c) * (1 / (1 - equi L 1 * aey)) +
              coupling c * (1 / (1 - equi L 0 * aex))) * ey0_coupled c - ey_vec s ! i_var s)] \<and>
         sige_vec s' = sige_vec s @ [sige_vec s ! i_var s +
           ddt_var s' * (1 / (1 - equi L 2 * aes) * sqrt (equi L 5) - sige_vec s ! i_var s)]
       else
         ex_vec s' = ex_vec s @ [ex_vec s ! i_var s + ddt_var s' * dxdt L (ex_vec s ! i_var s) aex] \<and>
         ey_vec s' = ey_vec s @ [ey_vec s ! i_var s + ddt_var s' * dydt L c (ey_vec s ! i_var s) aey] \<and>
         sige_vec s' = sige_vec s @
           [sige_vec s ! i_var s + ddt_var s' * dedt L (sige_vec s ! i_var s) aes])"
  using assms
  by (auto simp: adaptive_body_def rlx_push_def der_push_def ibs_update_def ibs_switch_def
      rates_at_def Let_def vget_def split: Option.bind_splits if_splits prod.splits)


section \<open>The claims\<close>

text \<open>
  Claim C4, as amended. For every step count \<open>N\<close>, the fixed-step overload returns, and the
  four vectors it extends (\<^verbatim>\<open>t\<close>, \<^verbatim>\<open>ex\<close>, \<^verbatim>\<open>ey\<close>, \<^verbatim>\<open>sigs\<close>) are longer than the
  caller's by exactly \<open>max 1 N\<close>: with one seed entry, \<open>N + 1\<close> elements when \<open>N \<ge> 1\<close> and
  two elements when \<open>N \<le> 0\<close>, because the body of the \<^verbatim>\<open>do\<close> loop runs before the counter
  is tested. The statement holds for every lattice and every growth-rate model, so the
  length does not depend on the trajectory: the loop condition of line 874 reads the counter
  only.
\<close>

theorem fixed_series_length:
  assumes "seeded v" and "supported m"
  shows "\<exists>r. ODE_fixed L v m pn N dt cp meth = Some r \<and>
           length (t_vec r) = length (t_vec v) + nat (max 1 N) \<and>
           length (ex_vec r) = length (ex_vec v) + nat (max 1 N) \<and>
           length (ey_vec r) = length (ey_vec v) + nat (max 1 N) \<and>
           length (sigs_vec r) = length (sigs_vec v) + nat (max 1 N)"
proof -
  from ODE_fixed_run_total [OF assms] obtain sf
    where sf: "ODE_fixed_run L v m pn N dt cp meth = Some sf" ..
  from ODE_fixed_run_steps [OF sf] obtain s0
    where s0: "fixed_init L (sanitized L m pn cp meth) dt v = Some s0"
      and g: "grown (nat (max 1 N)) s0 sf" by blast
  have "ODE_fixed L v m pn N dt cp meth = Some (returned v sf)"
    using sf by (simp add: ODE_fixed_def)
  moreover from g fixed_init_facts(1-4) [OF s0]
  have "length (t_vec (returned v sf)) = length (t_vec v) + nat (max 1 N)"
    "length (ex_vec (returned v sf)) = length (ex_vec v) + nat (max 1 N)"
    "length (ey_vec (returned v sf)) = length (ey_vec v) + nat (max 1 N)"
    "length (sigs_vec (returned v sf)) = length (sigs_vec v) + nat (max 1 N)"
    by (simp_all add: grown_def returned_def)
  ultimately show ?thesis by blast
qed

text \<open>The statement at three steps from the unit seed: four elements.\<close>

theorem fixed_series_length_witness:
  "seeded unit_seed \<and> supported 1 \<and>
   map_option (length \<circ> t_vec) (ODE_fixed flat_lattice unit_seed 1 1 3 1 0 ''der'') = Some 4"
  using fixed_series_length [of unit_seed 1 flat_lattice 1 3 1 0 "''der''"]
  by (auto simp: seeded_def supported_def unit_seed_def)

text \<open>
  Claim C4 as it was stated fails at \<open>N = 0\<close>: the claim gives length \<open>0 + 1\<close>, the run
  returns vectors of length 2.
\<close>

theorem fixed_zero_steps_counterexample:
  "map_option (length \<circ> t_vec) (ODE_fixed flat_lattice unit_seed 1 1 0 1 0 ''der'') = Some 2"
  by (simp add: run_defs flat_lattice_def unit_seed_def)

text \<open>
  Claim C10. A coupling percentage above 100 or below 0 is replaced by 0 before the coupling
  fraction is computed (lines 165-170 and 544-558): in both overloads the run returns exactly
  what the run with percentage 0 returns. The run is not aborted: on seeded vectors and
  with one of the thirteen models (and, in the threshold overload, a budget that fits an
  \<^verbatim>\<open>int\<close>) it returns.
\<close>

theorem coupling_clamped_to_zero:
  assumes "cp > 100 \<or> cp < 0"
  shows "ODE_adaptive L v m pn cp th meth = ODE_adaptive L v m pn 0 th meth \<and>
         ODE_fixed L v m pn N dt cp meth = ODE_fixed L v m pn N dt 0 meth \<and>
         (seeded v \<and> supported m \<and> budget_fits L v m pn \<longrightarrow>
            ODE_adaptive L v m pn cp th meth \<noteq> None) \<and>
         (seeded v \<and> supported m \<longrightarrow> ODE_fixed L v m pn N dt cp meth \<noteq> None)"
proof -
  have s: "sanitized L m pn cp meth = sanitized L m pn 0 meth"
    using sanitize_coupling_out [OF assms] by (simp add: sanitized_def)
  have "ODE_adaptive L v m pn cp th meth = ODE_adaptive L v m pn 0 th meth"
    by (simp add: ODE_adaptive_def ODE_adaptive_run_def s)
  moreover have "ODE_fixed L v m pn N dt cp meth = ODE_fixed L v m pn N dt 0 meth"
    by (simp add: ODE_fixed_def ODE_fixed_run_def s)
  moreover have "ODE_adaptive L v m pn cp th meth \<noteq> None"
    if "seeded v" "supported m" "budget_fits L v m pn"
    using ODE_adaptive_run_total [OF that] by (simp add: ODE_adaptive_def)
  moreover have "ODE_fixed L v m pn N dt cp meth \<noteq> None" if "seeded v" "supported m"
    using ODE_fixed_run_total [OF that] by (simp add: ODE_fixed_def)
  ultimately show ?thesis by blast
qed

text \<open>The statement at percentage 150 on the drift lattice.\<close>

theorem coupling_clamped_to_zero_witness:
  "((150::int) > 100 \<or> (150::int) < 0) \<and>
   ODE_adaptive drift_lattice unit_seed 1 1 150 (1 / 2) ''der'' =
     ODE_adaptive drift_lattice unit_seed 1 1 0 (1 / 2) ''der'' \<and>
   ODE_fixed drift_lattice unit_seed 1 1 2 1 150 ''der'' =
     ODE_fixed drift_lattice unit_seed 1 1 2 1 0 ''der'' \<and>
   ODE_adaptive drift_lattice unit_seed 1 1 150 (1 / 2) ''der'' \<noteq> None \<and>
   ODE_fixed drift_lattice unit_seed 1 1 2 1 150 ''der'' \<noteq> None"
proof -
  have h: "(150::int) > 100 \<or> (150::int) < 0" by simp
  have m: "supported 1" by (simp add: supported_def)
  from coupling_clamped_to_zero [OF h, of drift_lattice unit_seed 1 1 "1 / 2" "''der''" 2 1]
    unit_seed_seeded drift_budget_fits m h
  show ?thesis by blast
qed

text \<open>
  Claim C9. A method string other than \<^verbatim>\<open>"rlx"\<close> and \<^verbatim>\<open>"der"\<close> is replaced by \<^verbatim>\<open>"der"\<close>
  in both overloads (lines 151-159 and 548-556), and a threshold above 1 or below \<open>10\<^sup>-\<^sup>6\<close>
  is replaced by \<open>10\<^sup>-\<^sup>4\<close> in the threshold overload (lines 161-163): the run returns what
  the run with the default returns. Neither replacement aborts the run: on seeded vectors
  with one of the thirteen models (and a budget that fits an \<^verbatim>\<open>int\<close>) it returns. The
  warning of line 156 is printed output and not part of the model.
\<close>

theorem method_and_threshold_defaults:
  "(\<not> (meth = ''rlx'' \<or> meth = ''der'') \<longrightarrow>
      ODE_adaptive L v m pn cp th meth = ODE_adaptive L v m pn cp th ''der'' \<and>
      ODE_fixed L v m pn N dt cp meth = ODE_fixed L v m pn N dt cp ''der'') \<and>
   (th > 1 \<or> th < 1 / 10 ^ 6 \<longrightarrow>
      ODE_adaptive L v m pn cp th meth = ODE_adaptive L v m pn cp (1 / 10 ^ 4) meth) \<and>
   (seeded v \<and> supported m \<and> budget_fits L v m pn \<longrightarrow>
      ODE_adaptive L v m pn cp th meth \<noteq> None) \<and>
   (seeded v \<and> supported m \<longrightarrow> ODE_fixed L v m pn N dt cp meth \<noteq> None)"
proof -
  have "ODE_adaptive L v m pn cp th meth = ODE_adaptive L v m pn cp th ''der'' \<and>
      ODE_fixed L v m pn N dt cp meth = ODE_fixed L v m pn N dt cp ''der''"
    if "\<not> (meth = ''rlx'' \<or> meth = ''der'')"
    using sanitize_method_other [OF that]
    by (simp add: ODE_adaptive_def ODE_adaptive_run_def ODE_fixed_def ODE_fixed_run_def
        sanitized_def)
  moreover have "ODE_adaptive L v m pn cp th meth = ODE_adaptive L v m pn cp (1 / 10 ^ 4) meth"
    if "th > 1 \<or> th < 1 / 10 ^ 6"
    using sanitize_threshold_out [OF that]
    by (simp add: ODE_adaptive_def ODE_adaptive_run_def)
  moreover have "ODE_adaptive L v m pn cp th meth \<noteq> None"
    if "seeded v" "supported m" "budget_fits L v m pn"
    using ODE_adaptive_run_total [OF that] by (simp add: ODE_adaptive_def)
  moreover have "ODE_fixed L v m pn N dt cp meth \<noteq> None" if "seeded v" "supported m"
    using ODE_fixed_run_total [OF that] by (simp add: ODE_fixed_def)
  ultimately show ?thesis by blast
qed

text \<open>The statement at the method \<open>''euler''\<close> and the threshold 2.\<close>

theorem method_and_threshold_defaults_witness:
  "\<not> (''euler'' = ''rlx'' \<or> ''euler'' = ''der'') \<and> ((2::real) > 1 \<or> (2::real) < 1 / 10 ^ 6) \<and>
   ODE_adaptive drift_lattice unit_seed 1 1 0 2 ''euler'' =
     ODE_adaptive drift_lattice unit_seed 1 1 0 2 ''der'' \<and>
   ODE_fixed drift_lattice unit_seed 1 1 2 1 0 ''euler'' =
     ODE_fixed drift_lattice unit_seed 1 1 2 1 0 ''der'' \<and>
   ODE_adaptive drift_lattice unit_seed 1 1 0 2 ''euler'' =
     ODE_adaptive drift_lattice unit_seed 1 1 0 (1 / 10 ^ 4) ''euler'' \<and>
   ODE_adaptive drift_lattice unit_seed 1 1 0 2 ''euler'' \<noteq> None \<and>
   ODE_fixed drift_lattice unit_seed 1 1 2 1 0 ''euler'' \<noteq> None"
proof -
  have h: "\<not> (''euler'' = ''rlx'' \<or> ''euler'' = ''der'')" by simp
  have t: "(2::real) > 1 \<or> (2::real) < 1 / 10 ^ 6" by simp
  have m: "supported 1" by (simp add: supported_def)
  from method_and_threshold_defaults [of "''euler''" drift_lattice unit_seed 1 1 0 2 2 1]
    unit_seed_seeded drift_budget_fits m h t
  show ?thesis by blast
qed

text \<open>
  Claim C7. The seed that the threshold overload pushes onto \<^verbatim>\<open>sige\<close> before its loop is
  \<^verbatim>\<open>SigeFromRFAndSigs\<close> at \<^verbatim>\<open>equi[6]\<close> (lines 240-252): it is the same for every caller's
  vectors, so it depends neither on \<^verbatim>\<open>sigs[0]\<close> nor on the caller's energy spread. The
  fixed-step overload pushes \<^verbatim>\<open>SigeFromRFAndSigs\<close> at \<^verbatim>\<open>sigs[0]\<close> (lines 639-644). Where
  the two values differ, the two overloads enter their loops with different energy-spread
  vectors on the same input, and with an empty caller's vector the value read first,
  \<^verbatim>\<open>sige[0]\<close>, differs.
\<close>

theorem seed_energy_spread:
  assumes "adaptive_init L c v = Some (ms, sa)" and "fixed_init L c' dt v = Some sf"
  shows "sige_vec sa = sige_vec v @ [SigeFromRFAndSigs L (equi L 6)] \<and>
         sige_vec sf = sige_vec v @ [SigeFromRFAndSigs L (sigs_vec v ! 0)] \<and>
         (\<forall>v' ms' sa'. adaptive_init L c v' = Some (ms', sa') \<longrightarrow>
            last (sige_vec sa') = last (sige_vec sa)) \<and>
         (SigeFromRFAndSigs L (equi L 6) \<noteq> SigeFromRFAndSigs L (sigs_vec v ! 0) \<longrightarrow>
            sige_vec sa \<noteq> sige_vec sf \<and>
            (sige_vec v = [] \<longrightarrow> vget (sige_vec sa) 0 \<noteq> vget (sige_vec sf) 0))"
proof -
  have a: "sige_vec sa = sige_vec v @ [SigeFromRFAndSigs L (equi L 6)]"
    using assms(1) by (rule adaptive_init_facts(6))
  from fixed_init_facts(8) [OF assms(2)] obtain sg0 where
    "vget (sigs_vec v) 0 = Some sg0" "sige_vec sf = sige_vec v @ [SigeFromRFAndSigs L sg0]"
    by blast
  then have f: "sige_vec sf = sige_vec v @ [SigeFromRFAndSigs L (sigs_vec v ! 0)]"
    by (auto dest: vget_SomeD)
  have i: "last (sige_vec sa') = last (sige_vec sa)"
    if "adaptive_init L c v' = Some (ms', sa')" for v' ms' sa'
    using adaptive_init_facts(6) [OF that] a by simp
  from a f i show ?thesis by (auto simp: vget_def)
qed

text \<open>The statement on the drift lattice with bunch length 3: the seeds are 1 and 3.\<close>

theorem seed_energy_spread_witness:
  "\<exists>ms sa sf. adaptive_init drift_lattice der_settings wide_seed = Some (ms, sa) \<and>
     fixed_init drift_lattice der_settings 1 wide_seed = Some sf \<and>
     SigeFromRFAndSigs drift_lattice (equi drift_lattice 6) \<noteq>
       SigeFromRFAndSigs drift_lattice (sigs_vec wide_seed ! 0) \<and>
     sige_vec wide_seed = [] \<and>
     sige_vec sa = [1] \<and> sige_vec sf = [3] \<and> vget (sige_vec sa) 0 \<noteq> vget (sige_vec sf) 0"
proof -
  obtain ms sa where a: "adaptive_init drift_lattice der_settings wide_seed = Some (ms, sa)"
    by (simp add: adaptive_init_def drift_lattice_def der_settings_def wide_seed_def vget_def
        ibs_switch_def tau_max_def tau_min_def min_inv_def max_inv_def quotient_to_int_def
        double_to_int_def Let_def)
  obtain sf where f: "fixed_init drift_lattice der_settings 1 wide_seed = Some sf"
    by (simp add: fixed_init_def drift_lattice_def der_settings_def wide_seed_def vget_def Let_def)
  have d: "SigeFromRFAndSigs drift_lattice (equi drift_lattice 6) \<noteq>
       SigeFromRFAndSigs drift_lattice (sigs_vec wide_seed ! 0)"
    by (simp add: drift_lattice_def wide_seed_def)
  have e: "sige_vec wide_seed = []" by (simp add: wide_seed_def)
  note th = seed_energy_spread [OF a f]
  from th e have "sige_vec sa = [SigeFromRFAndSigs drift_lattice (equi drift_lattice 6)]"
    by simp
  moreover from th e
  have "sige_vec sf = [SigeFromRFAndSigs drift_lattice (sigs_vec wide_seed ! 0)]"
    by simp
  moreover from th d e have "vget (sige_vec sa) 0 \<noteq> vget (sige_vec sf) 0"
    by blast
  ultimately have "sige_vec sa = [1]" "sige_vec sf = [3]" "vget (sige_vec sa) 0 \<noteq> vget (sige_vec sf) 0"
    by (simp_all add: drift_lattice_def wide_seed_def)
  with a f d e show ?thesis by blast
qed

text \<open>
  Claim C8. In the derivative scheme of either overload: when the values read by a pass are
  \<^verbatim>\<open>ex = equi[3]\<close>, \<^verbatim>\<open>ey = ey0_coupled\<close> and \<^verbatim>\<open>sige = sqrt(equi[5])\<close> and the three growth
  rates are 0, the three derivatives are 0 and the pass appends these same values of
  \<^verbatim>\<open>ex\<close>, \<^verbatim>\<open>ey\<close> and \<^verbatim>\<open>sige\<close>, whatever the step \<^verbatim>\<open>ddt\<close> is. Over the reals the equality
  is exact. (The time stamp advances by \<^verbatim>\<open>ddt\<close> and the bunch length is recomputed from
  \<^verbatim>\<open>sige\<close>; they are not among the integrated quantities.) The damping times are taken
  nonzero, where the quotients of the program and of the model agree.
\<close>

theorem derivative_scheme_at_equilibrium:
  assumes "method_name c \<noteq> ''rlx''"
    and "ibs_update L c s = Some (0, 0, 0)"
    and "vget (ex_vec s) (i_var s) = Some (equi L 3)"
    and "vget (ey_vec s) (i_var s) = Some (ey0_coupled c)"
    and "vget (sige_vec s) (i_var s) = Some (sqrt (equi L 5))"
    and "vget (t_vec s) (i_var s) \<noteq> None"
    and "equi L 0 \<noteq> 0" "equi L 1 \<noteq> 0" "equi L 2 \<noteq> 0"
  shows "dxdt L (equi L 3) 0 = 0 \<and> dydt L c (ey0_coupled c) 0 = 0 \<and>
         dedt L (sqrt (equi L 5)) 0 = 0 \<and>
         (\<exists>s'. fixed_body L c s = Some s' \<and> ex_vec s' = ex_vec s @ [equi L 3] \<and>
            ey_vec s' = ey_vec s @ [ey0_coupled c] \<and>
            sige_vec s' = sige_vec s @ [sqrt (equi L 5)]) \<and>
         (ibs_var s \<noteq> None \<longrightarrow>
           (\<exists>s'. adaptive_body L c s = Some s' \<and> ex_vec s' = ex_vec s @ [equi L 3] \<and>
              ey_vec s' = ey_vec s @ [ey0_coupled c] \<and>
              sige_vec s' = sige_vec s @ [sqrt (equi L 5)]))"
proof -
  have d: "dxdt L (equi L 3) 0 = 0" "dydt L c (ey0_coupled c) 0 = 0"
    "dedt L (sqrt (equi L 5)) 0 = 0"
    by (simp_all add: dxdt_def dydt_def dedt_def)
  have push: "\<exists>s'. der_push L c (0, 0, 0) (s\<lparr>ddt_var := dt, ibs_var := b, i_var := Suc (i_var s)\<rparr>)
        = Some s' \<and> ex_vec s' = ex_vec s @ [equi L 3] \<and>
        ey_vec s' = ey_vec s @ [ey0_coupled c] \<and> sige_vec s' = sige_vec s @ [sqrt (equi L 5)]"
    for dt b
    using der_push_at_rest [of "s\<lparr>ddt_var := dt, ibs_var := b, i_var := Suc (i_var s)\<rparr>" L c]
      assms(3-6) by simp
  have f: "\<exists>s'. fixed_body L c s = Some s' \<and> ex_vec s' = ex_vec s @ [equi L 3] \<and>
            ey_vec s' = ey_vec s @ [ey0_coupled c] \<and> sige_vec s' = sige_vec s @ [sqrt (equi L 5)]"
    using push [where dt = "ddt_var s" and b = "Some (0, 0, 0)"] assms(1,2)
    by (simp add: fixed_body_def Let_def)
  have a: "\<exists>s'. adaptive_body L c s = Some s' \<and> ex_vec s' = ex_vec s @ [equi L 3] \<and>
            ey_vec s' = ey_vec s @ [ey0_coupled c] \<and> sige_vec s' = sige_vec s @ [sqrt (equi L 5)]"
    if "ibs_var s \<noteq> None"
  proof -
    from that obtain ib where ib: "ibs_var s = Some ib" by auto
    show ?thesis
      using push [where dt = "tau_min L ib / 2" and b = "Some (0, 0, 0)"] assms(1,2) ib
      by (simp add: adaptive_body_def Let_def)
  qed
  from d f a show ?thesis by blast
qed

text \<open>The statement on the flat lattice, with step 3 in the fixed-step body.\<close>

theorem derivative_scheme_at_equilibrium_witness:
  "method_name der_settings \<noteq> ''rlx'' \<and>
   ibs_update flat_lattice der_settings unit_locals = Some (0, 0, 0) \<and>
   vget (ex_vec unit_locals) (i_var unit_locals) = Some (equi flat_lattice 3) \<and>
   vget (ey_vec unit_locals) (i_var unit_locals) = Some (ey0_coupled der_settings) \<and>
   vget (sige_vec unit_locals) (i_var unit_locals) = Some (sqrt (equi flat_lattice 5)) \<and>
   vget (t_vec unit_locals) (i_var unit_locals) \<noteq> None \<and>
   equi flat_lattice 0 \<noteq> 0 \<and> equi flat_lattice 1 \<noteq> 0 \<and> equi flat_lattice 2 \<noteq> 0 \<and>
   ibs_var unit_locals \<noteq> None \<and>
   (\<exists>s'. fixed_body flat_lattice der_settings unit_locals = Some s' \<and>
      ex_vec s' = [1, 1] \<and> ey_vec s' = [1, 1] \<and> sige_vec s' = [1, 2, 1]) \<and>
   (\<exists>s'. adaptive_body flat_lattice der_settings unit_locals = Some s' \<and>
      ex_vec s' = [1, 1] \<and> ey_vec s' = [1, 1] \<and> sige_vec s' = [1, 2, 1])"
proof -
  have h: "method_name der_settings \<noteq> ''rlx''"
    "ibs_update flat_lattice der_settings unit_locals = Some (0, 0, 0)"
    "vget (ex_vec unit_locals) (i_var unit_locals) = Some (equi flat_lattice 3)"
    "vget (ey_vec unit_locals) (i_var unit_locals) = Some (ey0_coupled der_settings)"
    "vget (sige_vec unit_locals) (i_var unit_locals) = Some (sqrt (equi flat_lattice 5))"
    "vget (t_vec unit_locals) (i_var unit_locals) \<noteq> None"
    "equi flat_lattice 0 \<noteq> 0" "equi flat_lattice 1 \<noteq> 0" "equi flat_lattice 2 \<noteq> 0"
    by (simp_all add: der_settings_def flat_lattice_def unit_locals_def ibs_update_def
        ibs_switch_def vget_def)
  have b: "ibs_var unit_locals \<noteq> None" by (simp add: unit_locals_def)
  have v: "ex_vec unit_locals @ [equi flat_lattice 3] = [1, 1]"
    "ey_vec unit_locals @ [ey0_coupled der_settings] = [1, 1]"
    "sige_vec unit_locals @ [sqrt (equi flat_lattice 5)] = [1, 2, 1]"
    by (simp_all add: der_settings_def flat_lattice_def unit_locals_def)
  from derivative_scheme_at_equilibrium [OF h] b v h show ?thesis by simp
qed

text \<open>
  Claim C1, at a failing input. The header comment of the file lists \<^verbatim>\<open>sige\<close> among the
  arguments and the returned vectors as a reference, but both signatures take it by value
  (lines 144 and 540). After one step from the unit seed the caller holds two elements in
  \<^verbatim>\<open>t\<close>, \<^verbatim>\<open>ex\<close>, \<^verbatim>\<open>ey\<close> and \<^verbatim>\<open>sigs\<close> and still one element in \<^verbatim>\<open>sige\<close>, in the
  fixed-step overload and in the threshold overload alike.
\<close>

theorem caller_sige_not_extended:
  "ODE_fixed flat_lattice unit_seed 1 1 1 1 0 ''der'' =
     Some \<lparr>t_vec = [0, 1], ex_vec = [1, 1], ey_vec = [1, 1], sigs_vec = [1, 2], sige_vec = [1]\<rparr> \<and>
   ODE_adaptive drift_lattice unit_seed 1 1 0 (1 / 2) ''der'' =
     Some \<lparr>t_vec = [0, 1 / 2], ex_vec = [1, 3 / 2], ey_vec = [1, 3 / 2], sigs_vec = [1, 1],
           sige_vec = [1]\<rparr>"
  by (simp add: run_defs adaptive_defs flat_lattice_def drift_lattice_def unit_seed_def)

text \<open>
  Claim C3, at a failing input. With one entry in the caller's \<^verbatim>\<open>sige\<close>, the seed pushed
  before the loop sits at index 1 and the value advanced in pass \<^verbatim>\<open>i\<close> is pushed at index
  \<^verbatim>\<open>i + 1\<close>, while \<^verbatim>\<open>sige2\<close> and \<^verbatim>\<open>sigs\<close> are computed from \<^verbatim>\<open>sige[i]\<close> (lines 497-498,
  511-512, 855-856, 869-870). In the first pass on the flat lattice the advanced energy
  spread is 1, the appended square is 4 and the appended bunch length is
  \<^verbatim>\<open>sigsfromsige\<close> of 2, in both schemes; on the drift lattice the threshold overload
  advances the energy spread to 3/2 and appends the square 1 and the bunch length of 1.
\<close>

theorem bunch_length_from_stale_sige:
  "ODE_fixed_run flat_lattice unit_seed 1 1 1 1 0 ''der'' =
     Some \<lparr>t_vec = [0, 1], ex_vec = [1, 1], ey_vec = [1, 1], sigs_vec = [1, 2],
           sige_vec = [1, 2, 1], sige2_vec = [1, 4], i_var = 1, ddt_var = 1,
           ibs_var = Some (0, 0, 0)\<rparr> \<and>
   ODE_fixed_run flat_lattice unit_seed 1 1 1 1 0 ''rlx'' =
     Some \<lparr>t_vec = [0, 1], ex_vec = [1, 1], ey_vec = [1, 1], sigs_vec = [1, 2],
           sige_vec = [1, 2, 1], sige2_vec = [1, 4], i_var = 1, ddt_var = 1,
           ibs_var = Some (0, 0, 0)\<rparr> \<and>
   ODE_adaptive_run drift_lattice unit_seed 1 1 0 (1 / 2) ''der'' =
     Some \<lparr>t_vec = [0, 1 / 2], ex_vec = [1, 3 / 2], ey_vec = [1, 3 / 2], sigs_vec = [1, 1],
           sige_vec = [1, 1, 3 / 2], sige2_vec = [1, 1], i_var = 1, ddt_var = 1 / 2,
           ibs_var = Some (1, 1, 1)\<rparr>"
  by (simp add: run_defs adaptive_defs flat_lattice_def drift_lattice_def unit_seed_def)

text \<open>
  Claim C6, at a failing input. With \<^verbatim>\<open>ratio_x = 2\<close> the guard of lines 839-841 (commented
  \<^verbatim>\<open>avoid negative emit\<close>) halves the step from 2 to 1, and the factor is still computed
  from the same ratio: the denominator \<^verbatim>\<open>1 - ratio_x\<close> is \<open>-1\<close> and the appended
  emittance is \<open>-1\<close>.
\<close>

theorem halved_step_still_inverts:
  "ODE_fixed_run hot_lattice unit_seed 1 1 1 2 0 ''rlx'' =
     Some \<lparr>t_vec = [0, 1], ex_vec = [1, - 1], ey_vec = [1, 1], sigs_vec = [1, 2],
           sige_vec = [1, 2, 1], sige2_vec = [1, 4], i_var = 1, ddt_var = 1,
           ibs_var = Some (0, 2, 0)\<rparr> \<and>
   equi hot_lattice 0 * fst (snd (models hot_lattice 1 1 1 1 1 1)) = 2 \<and>
   1 - equi hot_lattice 0 * fst (snd (models hot_lattice 1 1 1 1 1 1)) = - 1"
  by (simp add: run_defs hot_lattice_def unit_seed_def)


text \<open>
  Claim C5, as amended. In every pass of the threshold overload the step is the minimum of
  the three damping times and the three inverse growth rates (an inverse of a zero rate is
  \<open>+\<infinity>\<close> and drops out), halved, and multiplied by 4 when the relaxation scheme is
  selected. The growth rates in the minimum are those the array \<^verbatim>\<open>ibs\<close> holds when the
  pass begins (lines 375-380 precede the switch of lines 383-474): in the first pass the
  rates of the seed, in a later pass the rates evaluated at index \<^verbatim>\<open>i - 1\<close>, one state
  behind the one the pass advances. The rates at the current index are evaluated after the
  step is set; they become the new content of \<^verbatim>\<open>ibs\<close> and they, with the step after its
  multiplication, are what the appended \<^verbatim>\<open>t\<close>, \<^verbatim>\<open>ex\<close>, \<^verbatim>\<open>ey\<close> and \<^verbatim>\<open>sige\<close> are computed
  from. The update formulas are stated for a regular pass.
\<close>

theorem step_size_from_held_rates:
  assumes "adaptive_body L c s = Some s'"
    and "regular_pass L c (rates_at L c s (i_var s))"
  shows "\<exists>ib aes aex aey.
      ibs_var s = Some ib \<and> rates_at L c s (i_var s) = (aes, aex, aey) \<and>
      ddt_var s' = tau_min L ib / 2 * (if method_name c = ''rlx'' then 4 else 1) \<and>
      ibs_var s' = Some (aes, aex, aey) \<and>
      t_vec s' = t_vec s @ [t_vec s ! i_var s + ddt_var s'] \<and>
      (if method_name c = ''rlx'' then
         ex_vec s' = ex_vec s @ [ex_vec s ! i_var s +
           ddt_var s' * (1 / (1 - equi L 0 * aex) * equi L 3 - ex_vec s ! i_var s)] \<and>
         ey_vec s' = ey_vec s @ [ey_vec s ! i_var s +
           ddt_var s' * (((1 - coupling c) * (1 / (1 - equi L 1 * aey)) +
              coupling c * (1 / (1 - equi L 0 * aex))) * ey0_coupled c - ey_vec s ! i_var s)] \<and>
         sige_vec s' = sige_vec s @ [sige_vec s ! i_var s +
           ddt_var s' * (1 / (1 - equi L 2 * aes) * sqrt (equi L 5) - sige_vec s ! i_var s)]
       else
         ex_vec s' = ex_vec s @ [ex_vec s ! i_var s + ddt_var s' * dxdt L (ex_vec s ! i_var s) aex] \<and>
         ey_vec s' = ey_vec s @ [ey_vec s ! i_var s + ddt_var s' * dydt L c (ey_vec s ! i_var s) aey] \<and>
         sige_vec s' = sige_vec s @
           [sige_vec s ! i_var s + ddt_var s' * dedt L (sige_vec s ! i_var s) aes]) \<and>
      (\<forall>v ms. adaptive_init L c v = Some (ms, s) \<longrightarrow>
         i_var s = 0 \<and> ib = rates_at L c s 0) \<and>
      (\<forall>p. adaptive_body L c p = Some s \<longrightarrow>
         i_var s = Suc (i_var p) \<and> ib = rates_at L c s (i_var s - 1))"
proof -
  from adaptive_body_pushes [OF assms(1)] obtain ib aes aex aey where
    ib: "ibs_var s = Some ib" and
    rest: "rates_at L c s (i_var s) = (aes, aex, aey)"
      "ddt_var s' = tau_min L ib / 2 * (if method_name c = ''rlx'' then 4 else 1)"
      "ibs_var s' = Some (aes, aex, aey)"
      "t_vec s' = t_vec s @ [t_vec s ! i_var s + ddt_var s']"
      "if method_name c = ''rlx'' then
         ex_vec s' = ex_vec s @ [ex_vec s ! i_var s +
           ddt_var s' * (1 / (1 - equi L 0 * aex) * equi L 3 - ex_vec s ! i_var s)] \<and>
         ey_vec s' = ey_vec s @ [ey_vec s ! i_var s +
           ddt_var s' * (((1 - coupling c) * (1 / (1 - equi L 1 * aey)) +
              coupling c * (1 / (1 - equi L 0 * aex))) * ey0_coupled c - ey_vec s ! i_var s)] \<and>
         sige_vec s' = sige_vec s @ [sige_vec s ! i_var s +
           ddt_var s' * (1 / (1 - equi L 2 * aes) * sqrt (equi L 5) - sige_vec s ! i_var s)]
       else
         ex_vec s' = ex_vec s @ [ex_vec s ! i_var s + ddt_var s' * dxdt L (ex_vec s ! i_var s) aex] \<and>
         ey_vec s' = ey_vec s @ [ey_vec s ! i_var s + ddt_var s' * dydt L c (ey_vec s ! i_var s) aey] \<and>
         sige_vec s' = sige_vec s @
           [sige_vec s ! i_var s + ddt_var s' * dedt L (sige_vec s ! i_var s) aes]"
    by blast
  have first: "i_var s = 0 \<and> ib = rates_at L c s 0"
    if "adaptive_init L c v = Some (ms, s)" for v ms
    using adaptive_init_facts [OF that] ib
    by (simp add: rates_at_def initial_rates_def)
  have later: "i_var s = Suc (i_var p) \<and> ib = rates_at L c s (i_var s - 1)"
    if p: "adaptive_body L c p = Some s" for p
  proof -
    from p obtain q where q: "ibs_update L c p = Some q"
      by (auto simp: adaptive_body_def split: Option.bind_splits)
    have i: "i_var s = Suc (i_var p)" using p by (rule adaptive_body_i)
    have "ibs_var s = Some (rates_at L c p (i_var p))"
      using adaptive_body_ibs [OF p] q ibs_update_SomeD(1) [OF q] by simp
    moreover have "rates_at L c s (i_var p) = rates_at L c p (i_var p)"
      using adaptive_body_pushed [OF p] ibs_update_SomeD(2-5) [OF q] by (rule pushed_rates_at)
    ultimately show ?thesis using i ib by simp
  qed
  from ib rest first later show ?thesis by blast
qed

text \<open>
  Two passes on the scaling lattice: the second step is 2, from the rates (1/4, 1/4, 1/4) at
  index 0, although the rates at index 1 are (1/2, 1/2, 1/2); the appended \<^verbatim>\<open>ex\<close> is
  13/10, from the step 2 and the rate 1/2. And one pass on the flat lattice, whose held
  rates are zero: the step is half the smallest damping time, 1/2.
\<close>

theorem step_size_from_held_rates_witness:
  "(\<exists>s1 s2. adaptive_body scaling_lattice der_settings quarter_locals = Some s1 \<and>
     adaptive_body scaling_lattice der_settings s1 = Some s2 \<and>
     regular_pass scaling_lattice der_settings
       (rates_at scaling_lattice der_settings s1 (i_var s1)) \<and>
     ibs_var s1 = Some (rates_at scaling_lattice der_settings s1 0) \<and>
     rates_at scaling_lattice der_settings s1 0 = (1 / 4, 1 / 4, 1 / 4) \<and>
     rates_at scaling_lattice der_settings s1 1 = (1 / 2, 1 / 2, 1 / 2) \<and>
     ddt_var s2 = 2 \<and> t_vec s2 = [0, 2, 4] \<and> ex_vec s2 = [1 / 4, 1 / 2, 13 / 10]) \<and>
   (\<exists>s1. adaptive_body flat_lattice der_settings unit_locals = Some s1 \<and>
     regular_pass flat_lattice der_settings
       (rates_at flat_lattice der_settings unit_locals (i_var unit_locals)) \<and>
     ibs_var unit_locals = Some (0, 0, 0) \<and> ddt_var s1 = 1 / 2 \<and> t_vec s1 = [0, 1 / 2])"
proof -
  define s1 where "s1 = \<lparr>t_vec = [0, 2], ex_vec = [1 / 4, 1 / 2], ey_vec = [1 / 4, 11 / 10],
    sigs_vec = [1, 1], sige_vec = [1, 1, 3 / 2], sige2_vec = [1, 1], i_var = 1, ddt_var = 2,
    ibs_var = Some (1 / 4, 1 / 4, 1 / 4)\<rparr>"
  have s1: "adaptive_body scaling_lattice der_settings quarter_locals = Some s1"
    by (simp add: adaptive_body_def der_push_def ibs_update_def ibs_switch_def vget_def
        tau_min_def min_inv_def dxdt_def dydt_def dedt_def scaling_lattice_def der_settings_def
        quarter_locals_def Let_def s1_def)
  have v1: "ex_vec s1 = [1 / 4, 1 / 2]" "ey_vec s1 = [1 / 4, 11 / 10]" "sigs_vec s1 = [1, 1]"
      "sige_vec s1 = [1, 1, 3 / 2]" "t_vec s1 = [0, 2]" "i_var s1 = 1"
    by (simp_all add: s1_def)
  have "in_range s1" using v1 by (simp add: in_range_def)
  moreover have "supported (model der_settings)" by (simp add: supported_def der_settings_def)
  moreover have "ibs_var s1 \<noteq> None" by (simp add: s1_def)
  ultimately obtain s2 where s2: "adaptive_body scaling_lattice der_settings s1 = Some s2"
    using adaptive_body_total by blast
  have r0: "rates_at scaling_lattice der_settings s1 0 = (1 / 4, 1 / 4, 1 / 4)"
    and r1: "rates_at scaling_lattice der_settings s1 1 = (1 / 2, 1 / 2, 1 / 2)"
    using v1 by (simp_all add: rates_at_def scaling_lattice_def)
  have g: "regular_pass scaling_lattice der_settings
      (rates_at scaling_lattice der_settings s1 (i_var s1))"
    using r1 v1(6) by (simp add: regular_pass_def scaling_lattice_def der_settings_def)
  from step_size_from_held_rates [OF s2 g] obtain ib aes aex aey where
    a: "ibs_var s1 = Some ib" "rates_at scaling_lattice der_settings s1 (i_var s1) = (aes, aex, aey)"
      "ddt_var s2 = tau_min scaling_lattice ib / 2 *
         (if method_name der_settings = ''rlx'' then 4 else 1)"
      "t_vec s2 = t_vec s1 @ [t_vec s1 ! i_var s1 + ddt_var s2]"
      "ex_vec s2 = ex_vec s1 @
         [ex_vec s1 ! i_var s1 + ddt_var s2 * dxdt scaling_lattice (ex_vec s1 ! i_var s1) aex]"
      "ib = rates_at scaling_lattice der_settings s1 (i_var s1 - 1)"
    using s1 by (auto simp: der_settings_def)
  from a(6) v1(6) r0 have ib: "ib = (1 / 4, 1 / 4, 1 / 4)" by simp
  from a(2) v1(6) r1 have aex: "aex = 1 / 2" by simp
  have d: "ddt_var s2 = 2"
    using a(3) ib by (simp add: tau_min_def min_inv_def scaling_lattice_def der_settings_def)
  have t: "t_vec s2 = [0, 2, 4]" using a(4) d v1 by simp
  have x: "ex_vec s2 = [1 / 4, 1 / 2, 13 / 10]"
    using a(5) d v1 aex by (simp add: dxdt_def scaling_lattice_def)
  have h: "ibs_var s1 = Some (rates_at scaling_lattice der_settings s1 0)"
    using a(1) ib r0 by simp
  have one: "\<exists>s1 s2. adaptive_body scaling_lattice der_settings quarter_locals = Some s1 \<and>
     adaptive_body scaling_lattice der_settings s1 = Some s2 \<and>
     regular_pass scaling_lattice der_settings
       (rates_at scaling_lattice der_settings s1 (i_var s1)) \<and>
     ibs_var s1 = Some (rates_at scaling_lattice der_settings s1 0) \<and>
     rates_at scaling_lattice der_settings s1 0 = (1 / 4, 1 / 4, 1 / 4) \<and>
     rates_at scaling_lattice der_settings s1 1 = (1 / 2, 1 / 2, 1 / 2) \<and>
     ddt_var s2 = 2 \<and> t_vec s2 = [0, 2, 4] \<and> ex_vec s2 = [1 / 4, 1 / 2, 13 / 10]"
    using s1 s2 g h r0 r1 d t x by blast
  have "in_range unit_locals" by (simp add: in_range_def unit_locals_def)
  moreover have "ibs_var unit_locals \<noteq> None" by (simp add: unit_locals_def)
  ultimately obtain u1 where u1: "adaptive_body flat_lattice der_settings unit_locals = Some u1"
    using adaptive_body_total \<open>supported (model der_settings)\<close> by blast
  have gu: "regular_pass flat_lattice der_settings
      (rates_at flat_lattice der_settings unit_locals (i_var unit_locals))"
    by (simp add: regular_pass_def rates_at_def flat_lattice_def der_settings_def)
  have bu: "ibs_var unit_locals = Some (0, 0, 0)" by (simp add: unit_locals_def)
  from step_size_from_held_rates [OF u1 gu] obtain ib' where
    b: "ibs_var unit_locals = Some ib'"
      "ddt_var u1 = tau_min flat_lattice ib' / 2 *
         (if method_name der_settings = ''rlx'' then 4 else 1)"
      "t_vec u1 = t_vec unit_locals @ [t_vec unit_locals ! i_var unit_locals + ddt_var u1]"
    by auto
  from b(1) bu have "ib' = (0, 0, 0)" by simp
  with b(2) have du: "ddt_var u1 = 1 / 2"
    by (simp add: tau_min_def min_inv_def flat_lattice_def der_settings_def)
  with b(3) have tu: "t_vec u1 = [0, 1 / 2]" by (simp add: unit_locals_def)
  from u1 gu bu du tu have two: "\<exists>s1. adaptive_body flat_lattice der_settings unit_locals = Some s1 \<and>
     regular_pass flat_lattice der_settings
       (rates_at flat_lattice der_settings unit_locals (i_var unit_locals)) \<and>
     ibs_var unit_locals = Some (0, 0, 0) \<and> ddt_var s1 = 1 / 2 \<and> t_vec s1 = [0, 1 / 2]"
    by blast
  from one two show ?thesis by blast
qed

text \<open>
  Claim C5 as it was stated fails on the scaling lattice: the run takes two passes and the
  second advances the time stamp by 2, while half the minimum over the growth rates at the
  current state (\<^verbatim>\<open>ex = ey = 1/2\<close>, \<^verbatim>\<open>sigs = sige = 1\<close>) is 1.
\<close>

theorem step_from_previous_rates_counterexample:
  "ODE_adaptive_run scaling_lattice quarter_seed 1 1 0 (1 / 2) ''der'' =
     Some \<lparr>t_vec = [0, 2, 4], ex_vec = [1 / 4, 1 / 2, 13 / 10], ey_vec = [1 / 4, 1 / 2, 13 / 10],
           sigs_vec = [1, 1, 3 / 2], sige_vec = [1, 1, 3 / 2, 2], sige2_vec = [1, 1, 9 / 4],
           i_var = 2, ddt_var = 2, ibs_var = Some (1 / 2, 1 / 2, 1 / 2)\<rparr> \<and>
   tau_min scaling_lattice (models scaling_lattice 1 1 (1 / 2) (1 / 2) 1 1) / 2 = 1"
  by (simp add: run_defs adaptive_defs scaling_lattice_def quarter_seed_def)




end
